theory Spec2Isabelle
  imports Complex_Main "HOL-Library.Word" "HOL-Library.Sublist"
begin

section \<open>JavaScript strings\<close>

text \<open>
  A JavaScript string is a finite sequence of 16-bit code units. Every string the story
  service handles (the backend's response text, the prompts, the property names of a
  parsed response) is modelled as such a sequence. The literals of the source are
  ASCII; \<open>js\<close> turns an ASCII literal into its code units.
\<close>

type_synonym jsstring = "16 word list"

definition js :: "string \<Rightarrow> jsstring" where
  "js s = map of_char s"

definition LF :: "16 word" where
  "LF = 10"

definition DQUOTE :: "16 word" where
  "DQUOTE = 34"

definition BACKTICK :: "16 word" where
  "BACKTICK = 96"

text \<open>
  \<open>String.prototype.trim\<close> removes the WhiteSpace and LineTerminator code points from
  both ends: TAB, LF, VT, FF, CR, SP, NBSP, U+1680, U+2000 to U+200A, U+2028, U+2029,
  U+202F, U+205F, U+3000 and U+FEFF.
\<close>

definition is_trim_space :: "16 word \<Rightarrow> bool" where
  "is_trim_space c =
     (c = 9 \<or> c = 10 \<or> c = 11 \<or> c = 12 \<or> c = 13 \<or> c = 32 \<or> c = 160 \<or> c = 5760
      \<or> (8192 \<le> c \<and> c \<le> 8202) \<or> c = 8232 \<or> c = 8233 \<or> c = 8239 \<or> c = 8287
      \<or> c = 12288 \<or> c = 65279)"

definition trim :: "jsstring \<Rightarrow> jsstring" where
  "trim s = rev (dropWhile is_trim_space (rev (dropWhile is_trim_space s)))"

section \<open>Cleaning the narrative response (generateStory, the two replace calls)\<close>

text \<open>
  \<open>text.replace(/^```json\n?/, '')\<close>: the pattern is anchored at the start of the
  input, so it matches at most once: the seven code units of the fence marker and, greedily,
  one line feed after them when there is one.
\<close>

definition json_fence :: jsstring where
  "json_fence = [BACKTICK, BACKTICK, BACKTICK] @ js ''json''"

definition closing_fence :: jsstring where
  "closing_fence = [BACKTICK, BACKTICK, BACKTICK]"

definition replace_leading_fence :: "jsstring \<Rightarrow> jsstring" where
  "replace_leading_fence s =
     (if prefix json_fence s
      then (case drop (length json_fence) s of
              [] \<Rightarrow> []
            | c # r \<Rightarrow> if c = LF then r else c # r)
      else s)"

text \<open>
  \<open>.replace(/\n?```$/, '')\<close>: without the multiline flag \<open>$\<close> is the end of the input
  only, so a match is a suffix of the string. The leftmost match wins: the suffix
  that begins with a line feed when the three backticks are preceded by one, the
  three backticks alone otherwise.
\<close>

definition replace_trailing_fence :: "jsstring \<Rightarrow> jsstring" where
  "replace_trailing_fence s =
     (if suffix (LF # closing_fence) s then take (length s - 4) s
      else if suffix closing_fence s then take (length s - 3) s
      else s)"

definition cleanText :: "jsstring \<Rightarrow> jsstring" where
  "cleanText text = replace_trailing_fence (replace_leading_fence text)"

text \<open>The markdown wrapping the source's comment speaks of: a fenced block tagged json.\<close>

definition wrap_in_fence :: "jsstring \<Rightarrow> jsstring" where
  "wrap_in_fence t = json_fence @ [LF] @ t @ [LF] @ closing_fence"

text \<open>
  The same with each of the two line feeds present or not, the four forms the two
  patterns are written for; \<open>fenced True True\<close> is \<open>wrap_in_fence\<close>.
\<close>

definition fenced :: "bool \<Rightarrow> bool \<Rightarrow> jsstring \<Rightarrow> jsstring" where
  "fenced a b t =
     json_fence @ (if a then [LF] else []) @ t @ (if b then [LF] else []) @ closing_fence"

section \<open>JSON values and JSON.parse\<close>

text \<open>
  \<open>JSON.parse\<close> belongs to the runtime, not to the repository; it is modelled after the
  JSON grammar it implements. The value it returns is null, a boolean, a number, a
  string, an array or an object. Numbers are IEEE doubles in the runtime; the model
  leaves the number type open and takes the runtime's two conversions (from a numeric
  literal to a number, from a number to its string) as a parameter. An object is the
  list of its own properties in creation order; a property is looked up by name with
  \<open>map_of\<close>. The runtime enumerates integer-like names before the others; the
  service only looks properties up by name, so the order plays no part. \<open>None\<close> is
  the SyntaxError.
\<close>

datatype 'n json =
    JNull
  | JBool bool
  | JNum 'n
  | JStr jsstring
  | JArr "'n json list"
  | JObj "(jsstring \<times> 'n json) list"

record 'n js_runtime =
  StringToNumber :: "jsstring \<Rightarrow> 'n"
  NumberToString :: "'n \<Rightarrow> jsstring"

text \<open>
  Defining a property that exists replaces its value and keeps its place; a new
  property goes to the end.
\<close>

fun obj_set :: "jsstring \<Rightarrow> 'v \<Rightarrow> (jsstring \<times> 'v) list \<Rightarrow> (jsstring \<times> 'v) list" where
  "obj_set k v [] = [(k, v)]"
| "obj_set k v ((k', v') # ps) =
     (if k' = k then (k, v) # ps else (k', v') # obj_set k v ps)"

subsection \<open>Tokens\<close>

datatype token =
    LBrace | RBrace | LBrack | RBrack | Colon | Comma
  | TStr jsstring | TNum jsstring | TTrue | TFalse | TNull

definition is_json_space :: "16 word \<Rightarrow> bool" where
  "is_json_space c = (c = 9 \<or> c = 10 \<or> c = 13 \<or> c = 32)"

definition is_digit :: "16 word \<Rightarrow> bool" where
  "is_digit c = (48 \<le> c \<and> c \<le> 57)"

definition is_number_char :: "16 word \<Rightarrow> bool" where
  "is_number_char c = (is_digit c \<or> c = 43 \<or> c = 45 \<or> c = 46 \<or> c = 69 \<or> c = 101)"

definition hex_digit :: "16 word \<Rightarrow> 16 word option" where
  "hex_digit c =
     (if 48 \<le> c \<and> c \<le> 57 then Some (c - 48)
      else if 65 \<le> c \<and> c \<le> 70 then Some (c - 55)
      else if 97 \<le> c \<and> c \<le> 102 then Some (c - 87)
      else None)"

definition hex4 :: "16 word \<Rightarrow> 16 word \<Rightarrow> 16 word \<Rightarrow> 16 word \<Rightarrow> 16 word option" where
  "hex4 a b c d =
     (case (hex_digit a, hex_digit b, hex_digit c, hex_digit d) of
        (Some x, Some y, Some z, Some w) \<Rightarrow> Some (((x * 16 + y) * 16 + z) * 16 + w)
      | _ \<Rightarrow> None)"

text \<open>The one-letter escapes of a JSON string: quote, backslash, slash, b, f, n, r, t.\<close>

definition simple_escape :: "16 word \<Rightarrow> 16 word option" where
  "simple_escape c =
     (if c = 34 then Some 34
      else if c = 92 then Some 92
      else if c = 47 then Some 47
      else if c = 98 then Some 8
      else if c = 102 then Some 12
      else if c = 110 then Some 10
      else if c = 114 then Some 13
      else if c = 116 then Some 9
      else None)"

text \<open>
  The JSON number grammar: an optional minus, then 0 or a digit string without leading
  zero, then an optional fraction (a point and at least one digit), then an optional
  exponent (e or E, an optional sign, at least one digit).
\<close>

definition number_exponent :: "jsstring \<Rightarrow> bool" where
  "number_exponent s =
     (case s of
        [] \<Rightarrow> True
      | e # r \<Rightarrow>
          (e = 69 \<or> e = 101) \<and>
          (let d = (case r of [] \<Rightarrow> [] | g # r' \<Rightarrow> if g = 43 \<or> g = 45 then r' else r)
           in d \<noteq> [] \<and> dropWhile is_digit d = []))"

definition number_fraction :: "jsstring \<Rightarrow> bool" where
  "number_fraction s =
     (case s of
        [] \<Rightarrow> True
      | p # r \<Rightarrow>
          if p = 46
          then (case r of [] \<Rightarrow> False
                | d # _ \<Rightarrow> is_digit d \<and> number_exponent (dropWhile is_digit r))
          else number_exponent s)"

definition number_integer :: "jsstring \<Rightarrow> bool" where
  "number_integer s =
     (case s of
        [] \<Rightarrow> False
      | c # r \<Rightarrow>
          if c = 48 then number_fraction r
          else is_digit c \<and> number_fraction (dropWhile is_digit r))"

definition valid_number :: "jsstring \<Rightarrow> bool" where
  "valid_number s =
     (case s of
        [] \<Rightarrow> False
      | c # r \<Rightarrow> if c = 45 then number_integer r else number_integer s)"

definition emit :: "token \<Rightarrow> token list option \<Rightarrow> token list option" where
  "emit t r = (case r of None \<Rightarrow> None | Some ts \<Rightarrow> Some (t # ts))"

text \<open>
  The lexer reads the text once, left to right. Between tokens it skips the four JSON
  white-space characters. Inside a string it rejects the control characters below
  U+0020 and decodes the escapes. A number is the longest run of number characters,
  checked against the number grammar when it ends. \<open>None\<close> is the SyntaxError.
\<close>

fun lex :: "jsstring \<Rightarrow> token list option"
  and lex_string :: "jsstring \<Rightarrow> jsstring \<Rightarrow> token list option"
  and lex_escape :: "jsstring \<Rightarrow> jsstring \<Rightarrow> token list option"
  and lex_number :: "jsstring \<Rightarrow> jsstring \<Rightarrow> token list option"
where
  "lex [] = Some []"
| "lex (c # cs) =
     (if is_json_space c then lex cs
      else if c = 123 then emit LBrace (lex cs)
      else if c = 125 then emit RBrace (lex cs)
      else if c = 91 then emit LBrack (lex cs)
      else if c = 93 then emit RBrack (lex cs)
      else if c = 58 then emit Colon (lex cs)
      else if c = 44 then emit Comma (lex cs)
      else if c = 34 then lex_string [] cs
      else if c = 45 \<or> is_digit c then lex_number [c] cs
      else if c = 116 then
        (case cs of
           r # u # e # rest \<Rightarrow>
             if r = 114 \<and> u = 117 \<and> e = 101 then emit TTrue (lex rest) else None
         | _ \<Rightarrow> None)
      else if c = 102 then
        (case cs of
           a # l # s # e # rest \<Rightarrow>
             if a = 97 \<and> l = 108 \<and> s = 115 \<and> e = 101 then emit TFalse (lex rest) else None
         | _ \<Rightarrow> None)
      else if c = 110 then
        (case cs of
           u # l # m # rest \<Rightarrow>
             if u = 117 \<and> l = 108 \<and> m = 108 then emit TNull (lex rest) else None
         | _ \<Rightarrow> None)
      else None)"
| "lex_string acc [] = None"
| "lex_string acc (c # cs) =
     (if c = 34 then emit (TStr (rev acc)) (lex cs)
      else if c = 92 then lex_escape acc cs
      else if c < 32 then None
      else lex_string (c # acc) cs)"
| "lex_escape acc [] = None"
| "lex_escape acc (c # cs) =
     (if c = 117 then
        (case cs of
           h1 # h2 # h3 # h4 # rest \<Rightarrow>
             (case hex4 h1 h2 h3 h4 of
                None \<Rightarrow> None
              | Some u \<Rightarrow> lex_string (u # acc) rest)
         | _ \<Rightarrow> None)
      else
        (case simple_escape c of
           None \<Rightarrow> None
         | Some e \<Rightarrow> lex_string (e # acc) cs))"
| "lex_number acc [] =
     (if valid_number (rev acc) then Some [TNum (rev acc)] else None)"
| "lex_number acc (c # cs) =
     (if is_number_char c then lex_number (c # acc) cs
      else if valid_number (rev acc) then emit (TNum (rev acc)) (lex (c # cs))
      else None)"

text \<open>
  The characters that are part of no token and cannot complete one: the white space
  \<open>trim\<close> removes, and the backtick.
\<close>

definition inert :: "16 word \<Rightarrow> bool" where
  "inert w = (is_trim_space w \<or> w = 96)"

subsection \<open>The parser\<close>

text \<open>
  The parser is a pushdown automaton over the tokens. The stack holds the containers
  that are open: an array with the elements read so far (last first), or an object with
  the properties defined so far and the name waiting for its value. A name that occurs
  twice in an object keeps the later value.
\<close>

datatype 'n frame =
    InArr "'n json list"
  | InObj "(jsstring \<times> 'n json) list" jsstring

datatype 'n expect =
    Value
  | FirstElement
  | FirstName
  | Name
  | NameSeparator
  | Separator
  | Finished "'n json"

fun deliver :: "'n json \<Rightarrow> 'n frame list \<Rightarrow> 'n frame list \<times> 'n expect" where
  "deliver v [] = ([], Finished v)"
| "deliver v (InArr es # st) = (InArr (v # es) # st, Separator)"
| "deliver v (InObj ps k # st) = (InObj (obj_set k v ps) k # st, Separator)"

definition scalar :: "'n js_runtime \<Rightarrow> token \<Rightarrow> 'n json option" where
  "scalar rt t =
     (case t of
        TStr s \<Rightarrow> Some (JStr s)
      | TNum s \<Rightarrow> Some (JNum (StringToNumber rt s))
      | TTrue \<Rightarrow> Some (JBool True)
      | TFalse \<Rightarrow> Some (JBool False)
      | TNull \<Rightarrow> Some JNull
      | _ \<Rightarrow> None)"

definition start_value ::
  "'n js_runtime \<Rightarrow> 'n frame list \<Rightarrow> token \<Rightarrow> ('n frame list \<times> 'n expect) option" where
  "start_value rt st t =
     (case t of
        LBrack \<Rightarrow> Some (InArr [] # st, FirstElement)
      | LBrace \<Rightarrow> Some (InObj [] [] # st, FirstName)
      | _ \<Rightarrow> (case scalar rt t of None \<Rightarrow> None | Some v \<Rightarrow> Some (deliver v st)))"

definition read_name ::
  "'n frame list \<Rightarrow> token \<Rightarrow> ('n frame list \<times> 'n expect) option" where
  "read_name st t =
     (case (t, st) of
        (TStr k, InObj ps _ # st') \<Rightarrow> Some (InObj ps k # st', NameSeparator)
      | _ \<Rightarrow> None)"

definition step ::
  "'n js_runtime \<Rightarrow> 'n frame list \<Rightarrow> 'n expect \<Rightarrow> token \<Rightarrow> ('n frame list \<times> 'n expect) option" where
  "step rt st e t =
     (case e of
        Value \<Rightarrow> start_value rt st t
      | FirstElement \<Rightarrow>
          (case (t, st) of
             (RBrack, InArr _ # st') \<Rightarrow> Some (deliver (JArr []) st')
           | _ \<Rightarrow> start_value rt st t)
      | FirstName \<Rightarrow>
          (case (t, st) of
             (RBrace, InObj _ _ # st') \<Rightarrow> Some (deliver (JObj []) st')
           | _ \<Rightarrow> read_name st t)
      | Name \<Rightarrow> read_name st t
      | NameSeparator \<Rightarrow> (case t of Colon \<Rightarrow> Some (st, Value) | _ \<Rightarrow> None)
      | Separator \<Rightarrow>
          (case (t, st) of
             (Comma, InArr es # st') \<Rightarrow> Some (st, Value)
           | (Comma, InObj ps k # st') \<Rightarrow> Some (st, Name)
           | (RBrack, InArr es # st') \<Rightarrow> Some (deliver (JArr (rev es)) st')
           | (RBrace, InObj ps k # st') \<Rightarrow> Some (deliver (JObj ps) st')
           | _ \<Rightarrow> None)
      | Finished v \<Rightarrow> None)"

fun run :: "'n js_runtime \<Rightarrow> 'n frame list \<Rightarrow> 'n expect \<Rightarrow> token list \<Rightarrow> 'n json option" where
  "run rt st e [] = (case e of Finished v \<Rightarrow> Some v | _ \<Rightarrow> None)"
| "run rt st e (t # ts) =
     (case step rt st e t of
        None \<Rightarrow> None
      | Some (st', e') \<Rightarrow> run rt st' e' ts)"

definition JSON_parse :: "'n js_runtime \<Rightarrow> jsstring \<Rightarrow> 'n json option" where
  "JSON_parse rt text =
     (case lex text of None \<Rightarrow> None | Some ts \<Rightarrow> run rt [] Value ts)"

subsection \<open>Reading a parsed value\<close>

text \<open>
  The own enumerable properties of a value, which is what the object spread copies: the
  properties of an object, the elements of an array under their decimal indices, the
  code units of a string under theirs, and nothing for null, a boolean or a number.
\<close>

fun decimal :: "nat \<Rightarrow> jsstring" where
  "decimal n =
     (if n < 10 then [48 + of_nat n]
      else decimal (n div 10) @ [48 + of_nat (n mod 10)])"

fun indexed :: "nat \<Rightarrow> 'v list \<Rightarrow> (jsstring \<times> 'v) list" where
  "indexed i [] = []"
| "indexed i (x # xs) = (decimal i, x) # indexed (Suc i) xs"

definition own_properties :: "'n json \<Rightarrow> (jsstring \<times> 'n json) list" where
  "own_properties v =
     (case v of
        JObj ps \<Rightarrow> ps
      | JArr xs \<Rightarrow> indexed 0 xs
      | JStr s \<Rightarrow> indexed 0 (map (\<lambda>c. JStr [c]) s)
      | _ \<Rightarrow> [])"

text \<open>
  What a promise of the service can reject with: an \<open>Error\<close> the service itself
  throws, with its message; the TypeError of a member access on null or undefined; or
  whatever a call of the SDK rejects with (the backend unreachable, a refused request),
  named by its message.
\<close>

datatype js_error =
    Error jsstring
  | TypeError
  | Rejected jsstring

text \<open>
  The member access \<open>v.name\<close>: a TypeError on null, otherwise the own property of
  that name, or undefined (\<open>None\<close>). The service reads one member, \<open>imagePrompt\<close>,
  which no prototype defines, so the lookup ends at the own properties.
\<close>

definition own_property :: "'n json \<Rightarrow> jsstring \<Rightarrow> 'n json option" where
  "own_property v name = map_of (own_properties v) name"

definition get_member :: "'n json \<Rightarrow> jsstring \<Rightarrow> js_error + 'n json option" where
  "get_member v name =
     (case v of
        JNull \<Rightarrow> Inl TypeError
      | _ \<Rightarrow> Inr (own_property v name))"

text \<open>
  The string a template literal puts in place of a value, or the TypeError it throws.
  A string stands for itself; null, true and false for their names; a number for the
  runtime's rendering of it. An array is converted by \<open>Array.prototype.toString\<close>,
  which joins the strings of its elements with commas, a null element giving the empty
  string; the elements are converted in order and the first error ends the conversion.
  An object is converted by the \<open>toString\<close> it has: a parsed object that owns no
  \<open>toString\<close> property inherits the one that returns \<open>[object Object]\<close>; one that
  owns such a property owns a value that cannot be called (no JSON value can), so the
  conversion goes on to \<open>valueOf\<close>, which is either an own property that cannot be
  called or the inherited one that returns the object itself, and ends in a TypeError.
\<close>

fun join :: "jsstring \<Rightarrow> jsstring list \<Rightarrow> jsstring" where
  "join sep [] = []"
| "join sep [x] = x"
| "join sep (x # y # ys) = x @ sep @ join sep (y # ys)"

fun ToString :: "'n js_runtime \<Rightarrow> 'n json \<Rightarrow> js_error + jsstring"
  and element_strings :: "'n js_runtime \<Rightarrow> 'n json list \<Rightarrow> js_error + jsstring list"
where
  "ToString rt JNull = Inr (js ''null'')"
| "ToString rt (JBool b) = Inr (if b then js ''true'' else js ''false'')"
| "ToString rt (JNum n) = Inr (NumberToString rt n)"
| "ToString rt (JStr s) = Inr s"
| "ToString rt (JArr xs) =
     (case element_strings rt xs of
        Inl e \<Rightarrow> Inl e
      | Inr ss \<Rightarrow> Inr (join (js '','') ss))"
| "ToString rt (JObj ps) =
     (case map_of ps (js ''toString'') of
        None \<Rightarrow> Inr (js ''[object Object]'')
      | Some _ \<Rightarrow> Inl TypeError)"
| "element_strings rt [] = Inr []"
| "element_strings rt (x # xs) =
     (case (case x of JNull \<Rightarrow> Inr [] | _ \<Rightarrow> ToString rt x) of
        Inl e \<Rightarrow> Inl e
      | Inr s \<Rightarrow>
          (case element_strings rt xs of
             Inl e \<Rightarrow> Inl e
           | Inr ss \<Rightarrow> Inr (s # ss)))"

definition template_value :: "'n js_runtime \<Rightarrow> 'n json option \<Rightarrow> js_error + jsstring" where
  "template_value rt v = (case v of None \<Rightarrow> Inr (js ''undefined'') | Some x \<Rightarrow> ToString rt x)"

section \<open>The story service\<close>

subsection \<open>Module initialisation\<close>

text \<open>
  \<open>process.env\<close> maps names to strings. The module throws when \<open>API_KEY\<close> is falsy
  (undefined or the empty string) and builds the client otherwise.
\<close>

type_synonym environment = "jsstring \<rightharpoonup> jsstring"

record GoogleGenAI =
  apiKey :: jsstring

definition load_service :: "environment \<Rightarrow> js_error + GoogleGenAI" where
  "load_service env =
     (case env (js ''API_KEY'') of
        None \<Rightarrow> Inl (Error (js ''API_KEY environment variable is not set.''))
      | Some k \<Rightarrow>
          if k = [] then Inl (Error (js ''API_KEY environment variable is not set.''))
          else Inr \<lparr>apiKey = k\<rparr>)"

subsection \<open>Requests and responses\<close>

datatype schema =
    StringSchema "jsstring option"
  | NumberSchema
  | BooleanSchema "jsstring option"
  | ArraySchema "jsstring option" schema
  | ObjectSchema "bool option" "jsstring option" "(jsstring \<times> schema) list" "jsstring list option"

definition vectorSchema :: "jsstring \<Rightarrow> schema" where
  "vectorSchema d =
     ObjectSchema None (Some d)
       [(js ''x'', NumberSchema), (js ''y'', NumberSchema), (js ''z'', NumberSchema)]
       (Some [js ''x'', js ''y'', js ''z''])"

definition responseSchema :: schema where
  "responseSchema =
     ObjectSchema None None
       [(js ''story'', StringSchema (Some (js
           ''The next part of the story in 1-2 paragraphs. Describe the scene, what is happening, and the results of the player's last action.''))),
        (js ''imagePrompt'', StringSchema (Some (js
           ''A detailed, vivid prompt for an AI image generator to create a cinematic, photorealistic image of the scene. Describe the environment, lighting, and key objects. Style: cinematic, photorealistic, 8k, detailed, atmospheric, Mars setting.''))),
        (js ''choices'', ArraySchema (Some (js
           ''A list of 2 to 4 distinct and interesting actions the player can take next.''))
           (StringSchema None)),
        (js ''newItem'', StringSchema (Some (js
           ''An item the player found or acquired in this scene (e.g., 'Power Cell', 'Medkit'). If no item is found, return an empty string.''))),
        (js ''gameOver'', BooleanSchema (Some (js
           ''Set to true ONLY if this is a definitive game over state (e.g., player death or reaching a final conclusion).''))),
        (js ''habitatUpdate'', ObjectSchema (Some True) (Some (js
           ''An object describing a new part to add to the Martian habitat. If no new part is added, this MUST be null.''))
           [(js ''partType'', StringSchema (Some (js
               ''The type of the part (e.g., 'CYLINDER', 'DOME', 'TUBE', 'AIRLOCK').''))),
            (js ''position'', vectorSchema (js
               ''The 3D position of the new part relative to the habitat's origin.'')),
            (js ''rotation'', vectorSchema (js
               ''The 3D rotation of the new part in radians.'')),
            (js ''scale'', vectorSchema (js ''The 3D scale of the new part.''))]
           None)]
       (Some [js ''story'', js ''imagePrompt'', js ''choices'', js ''newItem'', js ''gameOver'',
              js ''habitatUpdate''])"

definition systemInstruction :: jsstring where
  "systemInstruction = js
     ''You are a master storyteller and game master for a text-based adventure game called 'Settlers of Mars'. The player is one of the first human colonists on Mars. Your goal is to create a compelling, branching narrative focused on survival, exploration, and mystery. The story must be engaging and suspenseful. The choices you provide should be meaningful and have consequences. If the player finds an item, describe how they find it in the story. The player is also building a Martian habitat, starting with their crashed lander (a large cylinder at position 0,0,0). Some choices should allow the player to expand their base with new modules like tubes, domes, and airlocks. When the player adds a part, describe it in the story and provide the 'habitatUpdate' object with its details. Be creative with the placement and orientation of new parts to build an interesting base over time. You must always respond in the provided JSON schema.''"

record generateContent_config =
  gc_systemInstruction :: jsstring
  gc_responseMimeType :: jsstring
  gc_responseSchema :: schema
  gc_temperature :: real

record generateContent_request =
  gc_model :: jsstring
  gc_contents :: jsstring
  gc_config :: generateContent_config

record generateImages_config =
  gi_numberOfImages :: nat
  gi_outputMimeType :: jsstring
  gi_aspectRatio :: jsstring

record generateImages_request =
  gi_model :: jsstring
  gi_prompt :: jsstring
  gi_config :: generateImages_config

text \<open>
  What the SDK resolves with. Every member the service reads is optional in the SDK's
  types: the text of a content response, the list of generated images, the image of an
  entry and the bytes of an image.
\<close>

record GenerateContentResponse =
  response_text :: "jsstring option"

record Image =
  imageBytes :: "jsstring option"

record GeneratedImage =
  image :: "Image option"

record GenerateImagesResponse =
  generatedImages :: "GeneratedImage list option"

text \<open>
  The remote service, as the client reaches it through \<open>ai.models\<close>: each call either
  rejects or resolves with a response.
\<close>

record models =
  generateContent :: "GoogleGenAI \<Rightarrow> generateContent_request \<Rightarrow> js_error + GenerateContentResponse"
  generateImages :: "GoogleGenAI \<Rightarrow> generateImages_request \<Rightarrow> js_error + GenerateImagesResponse"

text \<open>The effects of the service, in the order they happen.\<close>

datatype effect =
    CallGenerateContent generateContent_request
  | CallGenerateImages generateImages_request
  | ConsoleError jsstring jsstring

subsection \<open>generateStory\<close>

definition intro_content :: jsstring where
  "intro_content = js
     ''Start the game. The player's colonization shuttle has just crash-landed. They are the sole survivor amidst the wreckage on the red, dusty plains of Mars. The main cylindrical body of the shuttle seems mostly intact and could serve as a starting shelter. What is their first move?''"

definition story_content :: "jsstring \<Rightarrow> jsstring \<Rightarrow> jsstring" where
  "story_content history choice =
     (if history = [] then intro_content
      else js ''Here is the story so far:'' @ [LF] @ history @ [LF, LF]
           @ js ''The player chose to: '' @ [DQUOTE] @ choice @ [DQUOTE] @ js ''.'' @ [LF, LF]
           @ js ''Continue the story. What happens next?'')"

definition story_request :: "jsstring \<Rightarrow> jsstring \<Rightarrow> generateContent_request" where
  "story_request history choice =
     \<lparr>gc_model = js ''gemini-2.5-flash'',
      gc_contents = story_content history choice,
      gc_config =
        \<lparr>gc_systemInstruction = systemInstruction,
         gc_responseMimeType = js ''application/json'',
         gc_responseSchema = responseSchema,
         gc_temperature = 0.8\<rparr>\<rparr>"

definition invalid_story_format :: js_error where
  "invalid_story_format = Error (js ''Received an invalid story format from the AI.'')"

definition generateStory ::
  "'n js_runtime \<Rightarrow> models \<Rightarrow> GoogleGenAI \<Rightarrow> jsstring \<Rightarrow> jsstring
     \<Rightarrow> (js_error + 'n json) \<times> effect list" where
  "generateStory rt net ai history choice =
     (let request = story_request history choice in
      case generateContent net ai request of
        Inl e \<Rightarrow> (Inl e, [CallGenerateContent request])
      | Inr response \<Rightarrow>
          (case response_text response of
             None \<Rightarrow> (Inl TypeError, [CallGenerateContent request])
           | Some t \<Rightarrow>
               (let trimmed = trim t in
                case JSON_parse rt (cleanText trimmed) of
                  None \<Rightarrow>
                    (Inl invalid_story_format,
                     [CallGenerateContent request,
                      ConsoleError (js ''Failed to parse JSON response:'') trimmed])
                | Some payload \<Rightarrow> (Inr payload, [CallGenerateContent request]))))"

subsection \<open>generateImage\<close>

definition image_request :: "jsstring \<Rightarrow> generateImages_request" where
  "image_request prompt =
     \<lparr>gi_model = js ''imagen-4.0-generate-001'',
      gi_prompt = prompt @ js '', on the planet Mars, sci-fi, realistic'',
      gi_config =
        \<lparr>gi_numberOfImages = 1,
         gi_outputMimeType = js ''image/jpeg'',
         gi_aspectRatio = js ''16:9''\<rparr>\<rparr>"

definition no_image :: js_error where
  "no_image = Error (js ''Failed to generate an image.'')"

text \<open>
  The prompt is built first, by the template literal; when that throws, the function
  rejects before the backend is called. The parameter is declared a string, but its
  value is whatever the payload holds under \<open>imagePrompt\<close>, undefined included.
\<close>

definition generateImage ::
  "'n js_runtime \<Rightarrow> models \<Rightarrow> GoogleGenAI \<Rightarrow> 'n json option
     \<Rightarrow> (js_error + jsstring) \<times> effect list" where
  "generateImage rt net ai prompt =
     (case template_value rt prompt of
        Inl e \<Rightarrow> (Inl e, [])
      | Inr prompt_text \<Rightarrow>
          (let request = image_request prompt_text in
           case generateImages net ai request of
             Inl e \<Rightarrow> (Inl e, [CallGenerateImages request])
           | Inr response \<Rightarrow>
               (case generatedImages response of
                  None \<Rightarrow> (Inl no_image, [CallGenerateImages request])
                | Some [] \<Rightarrow> (Inl no_image, [CallGenerateImages request])
                | Some (first # _) \<Rightarrow>
                    (case image first of
                       None \<Rightarrow> (Inl TypeError, [CallGenerateImages request])
                     | Some img \<Rightarrow>
                         (Inr (js ''data:image/jpeg;base64,''
                               @ (case imageBytes img of
                                    None \<Rightarrow> js ''undefined''
                                  | Some b \<Rightarrow> b)),
                          [CallGenerateImages request])))))"

subsection \<open>fetchNextScene\<close>

text \<open>
  The scene is the object \<open>{...scenePayload, imageUrl}\<close>: the own properties of the
  payload, then \<open>imageUrl\<close> defined on top.
\<close>

definition compose_scene :: "'n json \<Rightarrow> jsstring \<Rightarrow> 'n json" where
  "compose_scene scenePayload imageUrl =
     JObj (obj_set (js ''imageUrl'') (JStr imageUrl) (own_properties scenePayload))"

definition fetchNextScene ::
  "'n js_runtime \<Rightarrow> models \<Rightarrow> GoogleGenAI \<Rightarrow> jsstring \<Rightarrow> jsstring
     \<Rightarrow> (js_error + 'n json) \<times> effect list" where
  "fetchNextScene rt net ai history choice =
     (case generateStory rt net ai history choice of
        (Inl e, fx) \<Rightarrow> (Inl e, fx)
      | (Inr scenePayload, fx) \<Rightarrow>
          (case get_member scenePayload (js ''imagePrompt'') of
             Inl e \<Rightarrow> (Inl e, fx)
           | Inr prompt \<Rightarrow>
               (case generateImage rt net ai prompt of
                  (Inl e, fx') \<Rightarrow> (Inl e, fx @ fx')
                | (Inr imageUrl, fx') \<Rightarrow>
                    (Inr (compose_scene scenePayload imageUrl), fx @ fx'))))"

text \<open>
  A caller reaches \<open>fetchNextScene\<close> by importing the module, which runs the
  initialisation first; when that throws there is no export to call.
\<close>

definition import_and_fetchNextScene ::
  "'n js_runtime \<Rightarrow> models \<Rightarrow> environment \<Rightarrow> jsstring \<Rightarrow> jsstring
     \<Rightarrow> (js_error + 'n json) \<times> effect list" where
  "import_and_fetchNextScene rt net env history choice =
     (case load_service env of
        Inl e \<Rightarrow> (Inl e, [])
      | Inr ai \<Rightarrow> fetchNextScene rt net ai history choice)"

definition network_calls :: "effect list \<Rightarrow> effect list" where
  "network_calls fx =
     filter (\<lambda>e. case e of ConsoleError _ _ \<Rightarrow> False | _ \<Rightarrow> True) fx"

subsection \<open>The shape the types ask of a payload\<close>

text \<open>
  What \<open>ScenePayload\<close> in the type declarations, together with the invariant the
  design states for it, asks of a parsed value: an object whose \<open>story\<close> and
  \<open>imagePrompt\<close> are strings, whose \<open>choices\<close> is an array of strings that is empty
  only when \<open>gameOver\<close> is true, whose \<open>newItem\<close> is a string or null, whose
  \<open>gameOver\<close> is a boolean, and whose \<open>habitatUpdate\<close> is null or a part with one of
  the four part types and three vectors of numbers. The type assertion
  \<open>as ScenePayload\<close> is erased at compile time; this predicate is what a run-time
  check would have to test.
\<close>

definition is_string :: "'n json option \<Rightarrow> bool" where
  "is_string v = (case v of Some (JStr _) \<Rightarrow> True | _ \<Rightarrow> False)"

definition is_number :: "'n json option \<Rightarrow> bool" where
  "is_number v = (case v of Some (JNum _) \<Rightarrow> True | _ \<Rightarrow> False)"

definition is_boolean :: "'n json option \<Rightarrow> bool" where
  "is_boolean v = (case v of Some (JBool _) \<Rightarrow> True | _ \<Rightarrow> False)"

fun all_strings :: "'n json list \<Rightarrow> bool" where
  "all_strings [] = True"
| "all_strings (x # xs) = (is_string (Some x) \<and> all_strings xs)"

definition is_vector :: "'n json option \<Rightarrow> bool" where
  "is_vector v =
     (case v of
        Some (JObj ps) \<Rightarrow>
          is_number (map_of ps (js ''x'')) \<and> is_number (map_of ps (js ''y''))
          \<and> is_number (map_of ps (js ''z''))
      | _ \<Rightarrow> False)"

definition recognized_partType :: "jsstring \<Rightarrow> bool" where
  "recognized_partType t =
     (t = js ''CYLINDER'' \<or> t = js ''DOME'' \<or> t = js ''TUBE'' \<or> t = js ''AIRLOCK'')"

definition valid_habitatUpdate :: "'n json option \<Rightarrow> bool" where
  "valid_habitatUpdate v =
     (case v of
        Some JNull \<Rightarrow> True
      | Some (JObj ps) \<Rightarrow>
          (case map_of ps (js ''partType'') of
             Some (JStr t) \<Rightarrow> recognized_partType t
           | _ \<Rightarrow> False)
          \<and> is_vector (map_of ps (js ''position''))
          \<and> is_vector (map_of ps (js ''rotation''))
          \<and> is_vector (map_of ps (js ''scale''))
      | _ \<Rightarrow> False)"

definition valid_ScenePayload :: "'n json \<Rightarrow> bool" where
  "valid_ScenePayload v =
     (case v of
        JObj ps \<Rightarrow>
          is_string (map_of ps (js ''story''))
          \<and> is_string (map_of ps (js ''imagePrompt''))
          \<and> (case map_of ps (js ''choices'') of
                Some (JArr cs) \<Rightarrow>
                  all_strings cs
                  \<and> (if cs = [] then map_of ps (js ''gameOver'') = Some (JBool True) else True)
              | _ \<Rightarrow> False)
          \<and> (is_string (map_of ps (js ''newItem'')) \<or> map_of ps (js ''newItem'') = Some JNull)
          \<and> is_boolean (map_of ps (js ''gameOver''))
          \<and> valid_habitatUpdate (map_of ps (js ''habitatUpdate''))
      | _ \<Rightarrow> False)"

subsection \<open>A concrete runtime and scripted backends\<close>

text \<open>
  For evaluating the service on concrete inputs: a runtime that keeps a number as
  its literal, and a remote service that answers every call with a fixed reply.
\<close>

definition literal_runtime :: "jsstring js_runtime" where
  "literal_runtime = \<lparr>StringToNumber = (\<lambda>s. s), NumberToString = (\<lambda>n. n)\<rparr>"

definition scripted ::
  "js_error + GenerateContentResponse \<Rightarrow> js_error + GenerateImagesResponse \<Rightarrow> models" where
  "scripted story_reply image_reply =
     \<lparr>generateContent = (\<lambda>ai request. story_reply),
      generateImages = (\<lambda>ai request. image_reply)\<rparr>"

definition text_reply :: "jsstring \<Rightarrow> js_error + GenerateContentResponse" where
  "text_reply t = Inr \<lparr>response_text = Some t\<rparr>"

definition images_reply :: "jsstring list \<Rightarrow> js_error + GenerateImagesResponse" where
  "images_reply bs =
     Inr \<lparr>generatedImages = Some (map (\<lambda>b. \<lparr>image = Some \<lparr>imageBytes = Some b\<rparr>\<rparr>) bs)\<rparr>"

text \<open>
  Response texts for the examples: one without any field, one whose story is a number,
  one with no choices although the game is not over, one whose habitat update has the
  part type SPHERE, and one that has the declared shape; then the values they parse to.
\<close>

definition example_client :: GoogleGenAI where
  "example_client = \<lparr>apiKey = js ''key''\<rparr>"

definition reply_without_fields :: jsstring where
  \<open>reply_without_fields = js ''{}''\<close>

definition reply_with_number_story :: jsstring where
  \<open>reply_with_number_story = js
     ''{"story":1,"imagePrompt":"p","choices":["a","b"],"newItem":"","gameOver":false,"habitatUpdate":null}''\<close>

definition reply_without_choices :: jsstring where
  \<open>reply_without_choices = js
     ''{"story":"s","imagePrompt":"p","choices":[],"newItem":"","gameOver":false,"habitatUpdate":null}''\<close>

definition reply_with_sphere :: jsstring where
  \<open>reply_with_sphere = js
     ''{"story":"s","imagePrompt":"p","choices":["a","b"],"newItem":"","gameOver":false,"habitatUpdate":{"partType":"SPHERE","position":{"x":0,"y":0,"z":0},"rotation":{"x":0,"y":0,"z":0},"scale":{"x":1,"y":1,"z":1}}}''\<close>

definition reply_well_formed :: jsstring where
  \<open>reply_well_formed = js
     ''{"story":"s","imagePrompt":"p","choices":["a","b"],"newItem":"","gameOver":false,"habitatUpdate":null}''\<close>

definition zero_vector :: "jsstring json" where
  "zero_vector = JObj [(js ''x'', JNum (js ''0'')), (js ''y'', JNum (js ''0'')), (js ''z'', JNum (js ''0''))]"

definition one_vector :: "jsstring json" where
  "one_vector = JObj [(js ''x'', JNum (js ''1'')), (js ''y'', JNum (js ''1'')), (js ''z'', JNum (js ''1''))]"

definition payload_with ::
  "jsstring json \<Rightarrow> jsstring json \<Rightarrow> jsstring json \<Rightarrow> jsstring json" where
  "payload_with st ch hu =
     JObj [(js ''story'', st), (js ''imagePrompt'', JStr (js ''p'')), (js ''choices'', ch),
           (js ''newItem'', JStr []), (js ''gameOver'', JBool False), (js ''habitatUpdate'', hu)]"

definition sphere_update :: "jsstring json" where
  "sphere_update =
     JObj [(js ''partType'', JStr (js ''SPHERE'')), (js ''position'', zero_vector),
           (js ''rotation'', zero_vector), (js ''scale'', one_vector)]"

section \<open>The declared types\<close>

text \<open>
  The interfaces of the type declarations. A JavaScript number is modelled as a real:
  the components of a vector are only handed on, never computed with. \<open>partType\<close> is
  declared as a union of four string literals; the union exists at compile time only
  and the value comes from the parsed response, so at run time it is a string, and
  the renderer's \<open>switch\<close> has a default branch for the strings outside the union.
\<close>

datatype GameState = START | LOADING | PLAYING | GAME_OVER | ERROR

record Vector3 =
  coord_x :: real
  coord_y :: real
  coord_z :: real

record HabitatUpdate =
  partType :: jsstring
  position :: Vector3
  rotation :: Vector3
  scale :: Vector3

record HabitatPart = HabitatUpdate +
  part_id :: jsstring

record Scene =
  story :: jsstring
  imagePrompt :: jsstring
  choices :: "jsstring list"
  newItem :: "jsstring option"
  gameOver :: bool
  habitatUpdate :: "HabitatUpdate option"
  imageUrl :: jsstring

record StoryLogEntry =
  entry_id :: real
  entry_story :: jsstring

section \<open>The game screen (GameUI)\<close>

text \<open>
  What the component renders, as far as its content goes (styling left out): the
  parts handed to the habitat viewer, the inventory, the mission log (newest first,
  each entry cut to 100 code units and followed by three dots), the picture and the
  story panel. A choice button shows \<open>> choice\<close>, passes the choice to \<open>onChoice\<close>
  when clicked, and is disabled while loading.
\<close>

record GameUIProps =
  scene :: "Scene option"
  storyLog :: "StoryLogEntry list"
  inventory :: "jsstring list"
  habitatParts :: "HabitatPart list"
  isLoading :: bool

record choice_button =
  button_label :: jsstring
  onClick_choice :: jsstring
  button_disabled :: bool

datatype picture = Spinner | Img jsstring jsstring | NoPicture

datatype story_panel =
    AwaitingTransmission
  | NoScene
  | ScenePanel jsstring "choice_button list option"

record rendered =
  viewer_parts :: "HabitatPart list"
  inventory_items :: "jsstring list option"
  log_lines :: "(real \<times> jsstring) list option"
  shown_picture :: picture
  shown_panel :: story_panel

definition render_choices :: "bool \<Rightarrow> Scene \<Rightarrow> choice_button list option" where
  "render_choices loading sc =
     (if length (choices sc) > 0 \<and> \<not> gameOver sc
      then Some (map (\<lambda>c. \<lparr>button_label = js ''> '' @ c, onClick_choice = c,
                                button_disabled = loading\<rparr>) (choices sc))
      else None)"

definition GameUI :: "GameUIProps \<Rightarrow> rendered" where
  "GameUI props =
     \<lparr>viewer_parts = habitatParts props,
      inventory_items =
        (if length (inventory props) > 0 then Some (inventory props) else None),
      log_lines =
        (if length (storyLog props) > 0
         then Some (map (\<lambda>e. (entry_id e, take 100 (entry_story e) @ js ''...''))
                     (rev (storyLog props)))
         else None),
      shown_picture =
        (if isLoading props then Spinner
         else case scene props of
                Some sc \<Rightarrow> Img (imageUrl sc) (imagePrompt sc)
              | None \<Rightarrow> NoPicture),
      shown_panel =
        (if isLoading props then AwaitingTransmission
         else case scene props of
                None \<Rightarrow> NoScene
              | Some sc \<Rightarrow> ScenePanel (story sc) (render_choices (isLoading props) sc))\<rparr>"

text \<open>The choice buttons on the screen.\<close>

definition presented_choices :: "rendered \<Rightarrow> choice_button list" where
  "presented_choices r =
     (case shown_panel r of
        ScenePanel _ (Some bs) \<Rightarrow> bs
      | _ \<Rightarrow> [])"

section \<open>The habitat viewer (HabitatViewer)\<close>

text \<open>
  The scene graph is the list of the scene's children. The mount effect puts the two
  lights there; the camera, the renderer, the orbit controls and the resize listener
  it also sets up are not children of the scene. The parts effect runs after every
  change of the part list.

  The constructors take the arguments of the library's constructors in their order:
  a cylinder has its top radius, bottom radius, height and radial segments; a sphere
  its radius, width and height segments, and the start and length of the horizontal
  and of the vertical sweep; a box its width, height and depth. The sweeps of the
  source are written with \<open>Math.PI\<close>, so an angle is kept as a multiple of it:
  a horizontal sweep of \<open>Math.PI * 2\<close> with a vertical sweep of \<open>Math.PI / 2\<close> from
  the pole is the upper half of the sphere.
\<close>

datatype angle = PI_times real

datatype geometry =
    CylinderGeometry real real real nat
  | SphereGeometry real nat nat angle angle angle angle
  | BoxGeometry real real real

record MeshStandardMaterial =
  color :: nat
  metalness :: real
  roughness :: real

record Mesh =
  mesh_geometry :: geometry
  mesh_material :: MeshStandardMaterial
  mesh_position :: Vector3
  mesh_rotation :: Vector3
  mesh_scale :: Vector3

datatype Object3D =
    AmbientLight nat real
  | DirectionalLight nat real Vector3
  | MeshObject Mesh

record THREE_Scene =
  children :: "Object3D list"

record viewer =
  sceneRef :: "THREE_Scene option"

definition ambientLight :: Object3D where
  "ambientLight = AmbientLight 0xffffff 0.5"

definition directionalLight :: Object3D where
  "directionalLight =
     DirectionalLight 0xffffff 1 \<lparr>coord_x = 5, coord_y = 10, coord_z = 7.5\<rparr>"

text \<open>
  The first effect. It returns at once when the mount element is missing; otherwise the
  new scene holds the ambient and the directional light, in this order.
\<close>

definition mount_effect :: "bool \<Rightarrow> viewer \<Rightarrow> viewer" where
  "mount_effect mounted v =
     (if \<not> mounted then v
      else v\<lparr>sceneRef := Some \<lparr>children = [ambientLight, directionalLight]\<rparr>\<rparr>)"

text \<open>
  \<open>scene.remove(o)\<close> looks \<open>o\<close> up with \<open>indexOf\<close> and splices that entry out. The
  loop removes the third child for as long as there are more than two.
\<close>

definition Object3D_remove :: "Object3D \<Rightarrow> Object3D list \<Rightarrow> Object3D list" where
  "Object3D_remove obj cs = remove1 obj cs"

function clear_parts :: "Object3D list \<Rightarrow> Object3D list" where
  "clear_parts cs =
     (if length cs > 2 then clear_parts (Object3D_remove (cs ! 2) cs) else cs)"
  by pat_completeness auto
termination
  by (relation "measure length") (auto simp: Object3D_remove_def length_remove1)

declare clear_parts.simps [simp del]

definition part_material :: MeshStandardMaterial where
  "part_material = \<lparr>color = 0xc0c0c0, metalness = 0.8, roughness = 0.3\<rparr>"

text \<open>The \<open>switch\<close> on the part type; \<open>None\<close> is the default branch, which returns.\<close>

definition part_geometry :: "jsstring \<Rightarrow> geometry option" where
  "part_geometry t =
     (if t = js ''CYLINDER'' then Some (CylinderGeometry 0.5 0.5 1 32)
      else if t = js ''DOME''
      then Some (SphereGeometry 0.5 32 16 (PI_times 0) (PI_times 2) (PI_times 0) (PI_times (1 / 2)))
      else if t = js ''TUBE'' then Some (CylinderGeometry 0.2 0.2 1 24)
      else if t = js ''AIRLOCK'' then Some (BoxGeometry 0.4 0.6 0.4)
      else None)"

definition part_mesh :: "HabitatPart \<Rightarrow> Mesh option" where
  "part_mesh part =
     (case part_geometry (partType part) of
        None \<Rightarrow> None
      | Some g \<Rightarrow>
          Some \<lparr>mesh_geometry = g,
                mesh_material = part_material,
                mesh_position = position part,
                mesh_rotation = rotation part,
                mesh_scale = scale part\<rparr>)"

text \<open>The body of \<open>parts.forEach\<close>: one part, added to the children or skipped.\<close>

definition add_part :: "Object3D list \<Rightarrow> HabitatPart \<Rightarrow> Object3D list" where
  "add_part cs part =
     (case part_mesh part of
        None \<Rightarrow> cs
      | Some m \<Rightarrow> cs @ [MeshObject m])"

definition parts_effect :: "HabitatPart list \<Rightarrow> viewer \<Rightarrow> viewer" where
  "parts_effect parts v =
     (case sceneRef v of
        None \<Rightarrow> v
      | Some sc \<Rightarrow>
          v\<lparr>sceneRef := Some (sc\<lparr>children := foldl add_part (clear_parts (children sc)) parts\<rparr>)\<rparr>)"

text \<open>
  The viewer over its life: mounted once, then one run of the parts effect for every
  part list it is given.
\<close>

definition unmounted :: viewer where
  "unmounted = \<lparr>sceneRef = None\<rparr>"

definition after_updates :: "HabitatPart list list \<Rightarrow> viewer" where
  "after_updates updates =
     foldl (\<lambda>v parts. parts_effect parts v) (mount_effect True unmounted) updates"

definition scene_children :: "viewer \<Rightarrow> Object3D list option" where
  "scene_children v = (case sceneRef v of None \<Rightarrow> None | Some sc \<Rightarrow> Some (children sc))"

definition part_meshes :: "HabitatPart list \<Rightarrow> Object3D list" where
  "part_meshes parts = map MeshObject (List.map_filter part_mesh parts)"

text \<open>
  Parts for the examples: the crashed lander, and a part of any type placed off the
  origin.
\<close>

definition lander :: HabitatPart where
  "lander =
     \<lparr>partType = js ''CYLINDER'',
      position = \<lparr>coord_x = 0, coord_y = 0, coord_z = 0\<rparr>,
      rotation = \<lparr>coord_x = 0, coord_y = 0, coord_z = 0\<rparr>,
      scale = \<lparr>coord_x = 1, coord_y = 1, coord_z = 1\<rparr>,
      part_id = js ''part-0''\<rparr>"

definition example_part :: "jsstring \<Rightarrow> real \<Rightarrow> HabitatPart" where
  "example_part t d =
     \<lparr>partType = t,
      position = \<lparr>coord_x = d, coord_y = 0, coord_z = 2\<rparr>,
      rotation = \<lparr>coord_x = 0, coord_y = 1.5, coord_z = 0\<rparr>,
      scale = \<lparr>coord_x = 1, coord_y = 2, coord_z = 1\<rparr>,
      part_id = js ''part-'' @ t\<rparr>"

definition example_mesh :: "geometry \<Rightarrow> real \<Rightarrow> Mesh" where
  "example_mesh g d =
     \<lparr>mesh_geometry = g,
      mesh_material = part_material,
      mesh_position = \<lparr>coord_x = d, coord_y = 0, coord_z = 2\<rparr>,
      mesh_rotation = \<lparr>coord_x = 0, coord_y = 1.5, coord_z = 0\<rparr>,
      mesh_scale = \<lparr>coord_x = 1, coord_y = 2, coord_z = 1\<rparr>\<rparr>"

definition example_scene :: "jsstring list \<Rightarrow> bool \<Rightarrow> Scene" where
  "example_scene cs over =
     \<lparr>story = js ''The dust settles.'',
      imagePrompt = js ''A red plain'',
      choices = cs,
      newItem = None,
      gameOver = over,
      habitatUpdate = None,
      imageUrl = js ''data:image/jpeg;base64,AAAA''\<rparr>"

section \<open>Lemmas on cleaning\<close>

lemma trim_no_space_ends:
  assumes "s \<noteq> []" "\<not> is_trim_space (hd s)" "\<not> is_trim_space (last s)"
  shows "trim s = s"
proof -
  from assms have a: "dropWhile is_trim_space s = s"
    by (cases s) simp_all
  from assms have "rev s \<noteq> []" "\<not> is_trim_space (hd (rev s))"
    by (simp_all add: hd_rev)
  then have "dropWhile is_trim_space (rev s) = rev s"
    by (cases "rev s") simp_all
  with a show ?thesis by (simp add: trim_def)
qed

lemma backtick_no_space: "\<not> is_trim_space BACKTICK"
  by (simp add: is_trim_space_def BACKTICK_def)

lemma trim_wrap_in_fence: "trim (wrap_in_fence t) = wrap_in_fence t"
  by (rule trim_no_space_ends)
     (simp_all add: wrap_in_fence_def json_fence_def closing_fence_def backtick_no_space)

lemma replace_leading_fence_wrap:
  "replace_leading_fence (wrap_in_fence t) = t @ [LF] @ closing_fence"
  by (simp add: replace_leading_fence_def wrap_in_fence_def)

lemma replace_trailing_fence_wrap:
  "replace_trailing_fence (t @ [LF] @ closing_fence) = t"
proof -
  have "suffix (LF # closing_fence) (t @ [LF] @ closing_fence)"
    by (simp add: suffix_def)
  then show ?thesis
    by (simp add: replace_trailing_fence_def closing_fence_def)
qed

lemma cleanText_wrap_in_fence: "cleanText (trim (wrap_in_fence t)) = t"
  by (simp add: cleanText_def trim_wrap_in_fence replace_leading_fence_wrap
      replace_trailing_fence_wrap del: append.simps)

text \<open>The definitions to unfold when \<open>JSON.parse\<close> and the cleaning run on a concrete text.\<close>

lemmas parse_eval = JSON_parse_def js_def is_json_space_def is_digit_def emit_def step_def
  start_value_def scalar_def read_name_def

lemmas clean_eval = cleanText_def trim_def is_trim_space_def replace_leading_fence_def
  replace_trailing_fence_def json_fence_def closing_fence_def BACKTICK_def LF_def suffix_def

section \<open>Lemmas on the lexer\<close>

text \<open>
  White space around a JSON text, and a backtick at either end, as far as the lexer goes:
  an inert character after a text changes nothing when it is JSON white space and makes
  the text unreadable otherwise. Hence trimming and fence stripping leave the tokens of
  a text that \<open>JSON.parse\<close> accepts as they are.
\<close>

lemma inert_range:
  assumes "inert w"
  shows "unat w \<le> 32 \<or> unat w = 96 \<or> 160 \<le> unat w"
proof -
  from assms consider "w = 9" | "w = 10" | "w = 11" | "w = 12" | "w = 13" | "w = 32" | "w = 160"
    | "w = 5760" | "8192 \<le> w" | "w = 8232" | "w = 8233" | "w = 8239" | "w = 8287"
    | "w = 12288" | "w = 65279" | "w = 96"
    unfolding inert_def is_trim_space_def by blast
  then show ?thesis
    by cases (simp_all add: word_le_nat_alt)
qed

lemma inert_not_digit: "inert w \<Longrightarrow> \<not> is_digit w"
  using inert_range [of w] by (auto simp: is_digit_def word_le_nat_alt)

lemma inert_facts:
  assumes "inert w"
  shows "w \<noteq> 123" "w \<noteq> 125" "w \<noteq> 91" "w \<noteq> 93" "w \<noteq> 58" "w \<noteq> 44" "w \<noteq> 34" "w \<noteq> 92"
    "w \<noteq> 45" "w \<noteq> 116" "w \<noteq> 102" "w \<noteq> 110" "w \<noteq> 117"
    "w \<noteq> 114" "w \<noteq> 101" "w \<noteq> 97" "w \<noteq> 108" "w \<noteq> 115"
    "w \<noteq> 43" "w \<noteq> 46" "w \<noteq> 69" "w \<noteq> 47" "w \<noteq> 98"
  using inert_range [OF assms] by auto

lemma inert_not_hex: "inert w \<Longrightarrow> hex_digit w = None"
  using inert_range [of w] by (auto simp: hex_digit_def word_le_nat_alt)

lemma inert_hex4: "inert w \<Longrightarrow> hex4 a b c w = None"
  by (simp add: hex4_def inert_not_hex split: option.splits)

lemma inert_not_number_char: "inert w \<Longrightarrow> \<not> is_number_char w"
  by (simp add: is_number_char_def inert_not_digit inert_facts)

lemma inert_no_escape: "inert w \<Longrightarrow> simple_escape w = None"
  by (simp add: simple_escape_def inert_facts)

lemma inert_lex_single: "inert w \<Longrightarrow> lex [w] = (if is_json_space w then Some [] else None)"
  by (simp add: inert_facts inert_not_digit)


lemma list_shape5:
  obtains "u = []" | a where "u = [a]" | a b where "u = [a, b]" | a b c where "u = [a, b, c]"
    | a b c d where "u = [a, b, c, d]" | a b c d e r where "u = a # b # c # d # e # r"
proof (cases u)
  case Nil then show ?thesis using that by blast
next
  case c1: (Cons a u1)
  show ?thesis
  proof (cases u1)
    case Nil with c1 show ?thesis using that by blast
  next
    case c2: (Cons b u2)
    show ?thesis
    proof (cases u2)
      case Nil with c1 c2 show ?thesis using that by blast
    next
      case c3: (Cons c u3)
      show ?thesis
      proof (cases u3)
        case Nil with c1 c2 c3 show ?thesis using that by blast
      next
        case c4: (Cons d u4)
        show ?thesis
        proof (cases u4)
          case Nil with c1 c2 c3 c4 show ?thesis using that by blast
        next
          case (Cons e r) with c1 c2 c3 c4 show ?thesis using that by blast
        qed
      qed
    qed
  qed
qed

lemma emit_None: "emit t None = None"
  by (simp add: emit_def)

lemma emit_if: "emit t (if b then x else None) = (if b then emit t x else None)"
  by (simp add: emit_def)


lemmas lexer_simps = lex.simps lex_string.simps lex_escape.simps lex_number.simps

lemma lex_snoc_inert:
  assumes w: "inert w"
  shows "lex (u @ [w]) = (if is_json_space w then lex u else None)
       \<and> (\<forall>acc. lex_string acc (u @ [w]) = (if is_json_space w then lex_string acc u else None))
       \<and> (\<forall>acc. lex_escape acc (u @ [w]) = (if is_json_space w then lex_escape acc u else None))
       \<and> (\<forall>acc. lex_number acc (u @ [w]) = (if is_json_space w then lex_number acc u else None))"
proof (induction u rule: length_induct)
  case (1 u)
  note facts = inert_facts [OF w] inert_not_digit [OF w] inert_not_number_char [OF w]
    inert_no_escape [OF w] emit_if emit_None
  have ih: "length v < length u \<Longrightarrow>
      lex (v @ [w]) = (if is_json_space w then lex v else None)
    \<and> (\<forall>acc. lex_string acc (v @ [w]) = (if is_json_space w then lex_string acc v else None))
    \<and> (\<forall>acc. lex_escape acc (v @ [w]) = (if is_json_space w then lex_escape acc v else None))
    \<and> (\<forall>acc. lex_number acc (v @ [w]) = (if is_json_space w then lex_number acc v else None))" for v
    using "1.IH" by blast
  show ?case
  proof (cases u)
    case Nil
    show ?thesis unfolding Nil
      by (simp add: facts emit_def)
  next
    case (Cons c u')
    note ih' = ih [of u', unfolded Cons, simplified]
    have L: "lex (u @ [w]) = (if is_json_space w then lex u else None)"
    proof (cases rule: list_shape5 [of u'])
      case 1
      then show ?thesis unfolding Cons using ih [of "[]"] 
        by (simp add: facts Cons del: lexer_simps add: lex.simps(2) [of c])
    next
      case (2 a)
      then show ?thesis unfolding Cons using ih [of "[a]"] 
        by (simp add: facts Cons del: lexer_simps add: lex.simps(2) [of c])
    next
      case (3 a b)
      then show ?thesis unfolding Cons using ih [of "[a, b]"] 
        by (simp add: facts Cons del: lexer_simps add: lex.simps(2) [of c])
    next
      case (4 a b d)
      then show ?thesis unfolding Cons using ih [of "[a, b, d]"] ih [of "[]"]
        by (simp add: facts Cons del: lexer_simps add: lex.simps(2) [of c])
    next
      case (5 a b d e)
      then show ?thesis unfolding Cons using ih [of "[a, b, d, e]"] ih [of "[e]"] ih [of "[]"]
        by (simp add: facts Cons del: lexer_simps add: lex.simps(2) [of c])
    next
      case (6 a b d e f r)
      then show ?thesis unfolding Cons
        using ih [of "a # b # d # e # f # r"] ih [of "e # f # r"] ih [of "f # r"]
        by (simp add: facts Cons del: lexer_simps add: lex.simps(2) [of c])
    qed
    have S: "lex_string acc (u @ [w]) = (if is_json_space w then lex_string acc u else None)" for acc
      unfolding Cons using ih [of u']
      by (simp add: facts Cons del: lexer_simps add: lex_string.simps(2) [of _ c])
    have E: "lex_escape acc (u @ [w]) = (if is_json_space w then lex_escape acc u else None)" for acc
    proof (cases rule: list_shape5 [of u'])
      case 1
      then show ?thesis unfolding Cons using ih [of "[]"]
        by (simp add: facts Cons del: lexer_simps add: lex_escape.simps(2) [of _ c]
            split: option.splits)
    next
      case (2 a)
      then show ?thesis unfolding Cons using ih [of "[a]"]
        by (simp add: facts Cons del: lexer_simps add: lex_escape.simps(2) [of _ c]
            split: option.splits)
    next
      case (3 a b)
      then show ?thesis unfolding Cons using ih [of "[a, b]"]
        by (simp add: facts Cons del: lexer_simps add: lex_escape.simps(2) [of _ c]
            split: option.splits)
    next
      case (4 a b d)
      then show ?thesis unfolding Cons using ih [of "[a, b, d]"]
        by (simp add: facts Cons inert_hex4 [OF w] del: lexer_simps add: lex_escape.simps(2) [of _ c]
            split: option.splits)
    next
      case (5 a b d e)
      then show ?thesis unfolding Cons using ih [of "[a, b, d, e]"] ih [of "[]"]
        by (simp add: facts Cons del: lexer_simps add: lex_escape.simps(2) [of _ c]
            split: option.splits)
    next
      case (6 a b d e f r)
      then show ?thesis unfolding Cons
        using ih [of "a # b # d # e # f # r"] ih [of "f # r"]
        by (simp add: facts Cons del: lexer_simps add: lex_escape.simps(2) [of _ c]
            split: option.splits)
    qed
    have N: "lex_number acc (u @ [w]) = (if is_json_space w then lex_number acc u else None)" for acc
      using L ih [of u'] unfolding Cons
      by (simp add: facts Cons del: lexer_simps add: lex_number.simps(2) [of _ c])
    from L S E N show ?thesis by blast
  qed
qed


lemma lex_Cons_inert:
  "inert c \<Longrightarrow> lex (c # cs) = (if is_json_space c then lex cs else None)"
  by (simp add: inert_facts inert_not_digit)

lemma lex_drop_leading:
  "lex t = Some ts \<Longrightarrow> lex (dropWhile is_trim_space t) = Some ts"
proof (induction t)
  case Nil
  then show ?case by simp
next
  case (Cons c cs)
  show ?case
  proof (cases "is_trim_space c")
    case True
    then have "inert c" by (simp add: inert_def)
    with Cons.prems have "lex cs = Some ts"
      by (simp add: lex_Cons_inert del: lexer_simps split: if_splits)
    with Cons.IH True show ?thesis by simp
  next
    case False
    with Cons.prems show ?thesis by (simp del: lexer_simps)
  qed
qed

lemma lex_drop_trailing:
  "lex t = Some ts \<Longrightarrow> lex (rev (dropWhile is_trim_space (rev t))) = Some ts"
proof (induction t rule: rev_induct)
  case Nil
  then show ?case by simp
next
  case (snoc w t)
  show ?case
  proof (cases "is_trim_space w")
    case True
    then have "inert w" by (simp add: inert_def)
    from lex_snoc_inert [OF this, of t] snoc.prems have "lex t = Some ts"
      by (simp split: if_splits)
    with snoc.IH True show ?thesis by simp
  next
    case False
    with snoc.prems show ?thesis by simp
  qed
qed

lemma lex_trim: "lex t = Some ts \<Longrightarrow> lex (trim t) = Some ts"
  unfolding trim_def by (intro lex_drop_trailing lex_drop_leading)

lemma backtick_inert: "inert 96" "\<not> is_json_space 96"
  by (simp_all add: inert_def is_json_space_def)

lemma lex_no_leading_backtick: "lex (96 # cs) = None"
  using lex_Cons_inert [OF backtick_inert(1), of cs] backtick_inert(2) by (simp del: lexer_simps)

lemma lex_no_trailing_backtick: "lex (u @ [96]) = None"
  using lex_snoc_inert [OF backtick_inert(1), of u] backtick_inert(2) by simp

lemma cleanText_of_JSON:
  assumes "lex t = Some ts"
  shows "cleanText t = t"
proof -
  have "\<not> prefix json_fence t"
  proof
    assume "prefix json_fence t"
    then obtain r where "t = 96 # r"
      by (auto simp: json_fence_def BACKTICK_def prefix_def)
    with assms show False by (simp add: lex_no_leading_backtick del: lexer_simps)
  qed
  moreover have "\<not> suffix closing_fence t"
  proof
    assume "suffix closing_fence t"
    then obtain zs where "t = (zs @ [96, 96]) @ [96]"
      by (auto simp: closing_fence_def BACKTICK_def suffix_def)
    with assms lex_no_trailing_backtick [of "zs @ [96, 96]"] show False by simp
  qed
  moreover have "\<not> suffix (LF # closing_fence) t"
  proof
    assume "suffix (LF # closing_fence) t"
    then obtain zs where "t = (zs @ [LF, 96, 96]) @ [96]"
      by (auto simp: closing_fence_def BACKTICK_def suffix_def)
    with assms lex_no_trailing_backtick [of "zs @ [LF, 96, 96]"] show False by simp
  qed
  ultimately show ?thesis
    by (simp add: cleanText_def replace_leading_fence_def replace_trailing_fence_def)
qed

lemma JSON_parse_cleaned:
  assumes "JSON_parse rt t = Some v"
  shows "JSON_parse rt (cleanText (trim t)) = Some v"
proof -
  from assms obtain ts where ts: "lex t = Some ts" and r: "run rt [] Value ts = Some v"
    by (auto simp: JSON_parse_def split: option.splits)
  from ts have "lex (trim t) = Some ts" by (rule lex_trim)
  with r show ?thesis
    by (simp add: cleanText_of_JSON JSON_parse_def)
qed

text \<open>The fence in its four forms, around a text that \<open>JSON.parse\<close> accepts.\<close>

lemma trim_fenced: "trim (fenced a b t) = fenced a b t"
  by (rule trim_no_space_ends)
     (simp_all add: fenced_def json_fence_def closing_fence_def backtick_no_space)

lemma LF_inert: "inert LF" "is_json_space LF"
  by (simp_all add: inert_def is_trim_space_def is_json_space_def LF_def)

lemma lex_LF_Cons: "lex (LF # cs) = lex cs"
  using lex_Cons_inert [OF LF_inert(1), of cs] LF_inert(2) by (simp del: lexer_simps)

lemma lex_snoc_LF: "lex (u @ [LF]) = lex u"
  using lex_snoc_inert [OF LF_inert(1), of u] LF_inert(2) by simp

lemma replace_leading_fenced:
  assumes "lex t = Some ts" "t \<noteq> []"
  shows "\<exists>t1. replace_leading_fence (fenced a b t) = t1 @ (if b then [LF] else []) @ closing_fence
            \<and> lex t1 = Some ts"
proof (cases a)
  case True
  then have "replace_leading_fence (fenced a b t) = t @ (if b then [LF] else []) @ closing_fence"
    by (simp add: replace_leading_fence_def fenced_def)
  with assms show ?thesis by blast
next
  case False
  show ?thesis
  proof (cases t)
    case Nil
    with assms show ?thesis by simp
  next
    case (Cons c t0)
    show ?thesis
    proof (cases "c = LF")
      case True
      with Cons False have "replace_leading_fence (fenced a b t) = t0 @ (if b then [LF] else []) @ closing_fence"
        by (simp add: replace_leading_fence_def fenced_def)
      moreover from assms(1) Cons True have "lex t0 = Some ts"
        by (simp add: lex_LF_Cons del: lexer_simps)
      ultimately show ?thesis by blast
    next
      case ne: False
      with Cons False have "replace_leading_fence (fenced a b t) = t @ (if b then [LF] else []) @ closing_fence"
        by (simp add: replace_leading_fence_def fenced_def)
      with assms show ?thesis by blast
    qed
  qed
qed

lemma replace_trailing_fenced:
  assumes "lex t1 = Some ts"
  shows "lex (replace_trailing_fence (t1 @ (if b then [LF] else []) @ closing_fence)) = Some ts"
proof (cases b)
  case True
  then show ?thesis using assms replace_trailing_fence_wrap [of t1] by simp
next
  case False
  show ?thesis
  proof (cases "suffix [LF] t1")
    case True
    then obtain t2 where t2: "t1 = t2 @ [LF]" by (auto simp: suffix_def)
    then have "suffix (LF # closing_fence) (t1 @ closing_fence)" by (simp add: suffix_def)
    then have "replace_trailing_fence (t1 @ closing_fence) = t2"
      using t2 by (simp add: replace_trailing_fence_def closing_fence_def)
    moreover from assms t2 have "lex t2 = Some ts" by (simp add: lex_snoc_LF)
    ultimately show ?thesis using False by simp
  next
    case nl: False
    have "\<not> suffix (LF # closing_fence) (t1 @ closing_fence)"
    proof
      assume "suffix (LF # closing_fence) (t1 @ closing_fence)"
      then have "suffix ([LF] @ closing_fence) (t1 @ closing_fence)" by simp
      then have "suffix [LF] t1" by (simp only: same_suffix_suffix)
      with nl show False by simp
    qed
    moreover have "suffix closing_fence (t1 @ closing_fence)" by (simp add: suffix_def)
    ultimately have "replace_trailing_fence (t1 @ closing_fence) = t1"
      by (simp add: replace_trailing_fence_def closing_fence_def)
    with assms False show ?thesis by simp
  qed
qed

lemma JSON_parse_fenced:
  assumes "JSON_parse rt t = Some v"
  shows "JSON_parse rt (cleanText (trim (fenced a b t))) = Some v"
proof -
  from assms obtain ts where ts: "lex t = Some ts" and r: "run rt [] Value ts = Some v"
    by (auto simp: JSON_parse_def split: option.splits)
  from r have "ts \<noteq> []" by auto
  with ts have "t \<noteq> []" by auto
  from replace_leading_fenced [OF ts this, of a b] obtain t1 where
    "replace_leading_fence (fenced a b t) = t1 @ (if b then [LF] else []) @ closing_fence"
    "lex t1 = Some ts" by blast
  with replace_trailing_fenced [of t1 ts b] have "lex (cleanText (fenced a b t)) = Some ts"
    by (simp add: cleanText_def)
  with r show ?thesis by (simp add: JSON_parse_def trim_fenced)
qed

section \<open>Lemmas on the service\<close>

lemma map_of_obj_set:
  "map_of (obj_set k v ps) k' = (if k' = k then Some v else map_of ps k')"
  by (induction ps) auto

lemma own_property_compose_scene:
  "own_property (compose_scene payload url) name =
     (if name = js ''imageUrl'' then Some (JStr url) else own_property payload name)"
  by (simp add: own_property_def compose_scene_def own_properties_def map_of_obj_set)

lemma network_calls_generateStory:
  "network_calls (snd (generateStory rt net ai h c)) = [CallGenerateContent (story_request h c)]"
  by (simp add: generateStory_def network_calls_def Let_def split: sum.splits option.splits)

lemma template_value_undefined: "template_value rt None = Inr (js ''undefined'')"
  by (simp add: template_value_def)

lemma template_value_string: "template_value rt (Some (JStr s)) = Inr s"
  by (simp add: template_value_def)

lemma generateImage_throws:
  "template_value rt p = Inl e \<Longrightarrow> generateImage rt net ai p = (Inl e, [])"
  by (simp add: generateImage_def)

lemma network_calls_generateImage:
  "template_value rt p = Inr s \<Longrightarrow>
     network_calls (snd (generateImage rt net ai p)) = [CallGenerateImages (image_request s)]"
  by (simp add: generateImage_def network_calls_def Let_def
      split: sum.splits option.splits list.splits)

lemma generateImage_rejected:
  "template_value rt p = Inr s \<Longrightarrow> generateImages net ai (image_request s) = Inl e \<Longrightarrow>
     fst (generateImage rt net ai p) = Inl e"
  by (simp add: generateImage_def)

lemma generateImage_no_image:
  "template_value rt p = Inr s \<Longrightarrow>
     generateImages net ai (image_request s) = Inr \<lparr>generatedImages = None\<rparr>
     \<or> generateImages net ai (image_request s) = Inr \<lparr>generatedImages = Some []\<rparr> \<Longrightarrow>
     fst (generateImage rt net ai p) = Inl no_image"
  by (auto simp: generateImage_def)

lemma network_calls_append: "network_calls (xs @ ys) = network_calls xs @ network_calls ys"
  by (simp add: network_calls_def)

lemma fetchNextScene_unfold:
  "fetchNextScene rt net ai h c =
     (case fst (generateStory rt net ai h c) of
        Inl e \<Rightarrow> (Inl e, snd (generateStory rt net ai h c))
      | Inr payload \<Rightarrow>
          (case get_member payload (js ''imagePrompt'') of
             Inl e \<Rightarrow> (Inl e, snd (generateStory rt net ai h c))
           | Inr p \<Rightarrow>
               (case fst (generateImage rt net ai p) of
                  Inl e \<Rightarrow> Inl e
                | Inr url \<Rightarrow> Inr (compose_scene payload url),
                snd (generateStory rt net ai h c) @ snd (generateImage rt net ai p))))"
  by (simp add: fetchNextScene_def split: prod.splits sum.splits)

lemma get_member_of_own_property:
  "own_property payload name = Some v \<Longrightarrow> get_member payload name = Inr (Some v)"
  by (cases payload) (simp_all add: get_member_def own_property_def own_properties_def)

lemma network_calls_Nil: "network_calls [] = []"
  by (simp add: network_calls_def)

lemma generateStory_of_reply:
  "generateContent net ai (story_request h c) = Inr \<lparr>response_text = Some t\<rparr> \<Longrightarrow>
     JSON_parse rt (cleanText (trim t)) = Some payload \<Longrightarrow>
     fst (generateStory rt net ai h c) = Inr payload"
  by (simp add: generateStory_def)

section \<open>Evaluating the service on the example replies\<close>

lemmas number_eval = is_number_char_def valid_number_def number_integer_def number_fraction_def
  number_exponent_def literal_runtime_def

lemma parse_reply_without_fields:
  "JSON_parse literal_runtime (cleanText (trim reply_without_fields)) = Some (JObj [])"
  by (simp add: reply_without_fields_def parse_eval clean_eval)

lemma parse_reply_with_number_story:
  "JSON_parse literal_runtime (cleanText (trim reply_with_number_story))
   = Some (payload_with (JNum (js ''1'')) (JArr [JStr (js ''a''), JStr (js ''b'')]) JNull)"
  by (simp add: reply_with_number_story_def payload_with_def parse_eval clean_eval number_eval)

lemma parse_reply_without_choices:
  "JSON_parse literal_runtime (cleanText (trim reply_without_choices))
   = Some (payload_with (JStr (js ''s'')) (JArr []) JNull)"
  by (simp add: reply_without_choices_def payload_with_def parse_eval clean_eval)

lemma parse_reply_with_sphere:
  "JSON_parse literal_runtime (cleanText (trim reply_with_sphere))
   = Some (payload_with (JStr (js ''s'')) (JArr [JStr (js ''a''), JStr (js ''b'')]) sphere_update)"
  by (simp add: reply_with_sphere_def payload_with_def sphere_update_def zero_vector_def
      one_vector_def parse_eval clean_eval number_eval)

lemma parse_reply_well_formed:
  "JSON_parse literal_runtime (cleanText (trim reply_well_formed))
   = Some (payload_with (JStr (js ''s'')) (JArr [JStr (js ''a''), JStr (js ''b'')]) JNull)"
  by (simp add: reply_well_formed_def payload_with_def parse_eval clean_eval)

lemma image_prompt_of_payload_with:
  "get_member (payload_with st ch hu) (js ''imagePrompt'') = Inr (Some (JStr (js ''p'')))"
  by (simp add: get_member_def own_property_def own_properties_def payload_with_def js_def)

lemma one_image:
  "template_value rt q = Inr s \<Longrightarrow>
     generateImage rt (scripted r (images_reply [b])) ai q =
       (Inr (js ''data:image/jpeg;base64,'' @ b), [CallGenerateImages (image_request s)])"
  by (simp add: generateImage_def scripted_def images_reply_def)

lemma generateStory_text_reply:
  "fst (generateStory rt (scripted (text_reply t) r) ai h c) =
     (case JSON_parse rt (cleanText (trim t)) of
        None \<Rightarrow> Inl invalid_story_format
      | Some payload \<Rightarrow> Inr payload)"
  by (simp add: generateStory_def scripted_def text_reply_def split: option.splits)

section \<open>Lemmas on the habitat viewer\<close>

lemma clear_parts_lights:
  assumes "\<forall>m \<in> set ms. m \<noteq> a \<and> m \<noteq> d"
  shows "clear_parts (a # d # ms) = [a, d]"
  using assms
proof (induction ms)
  case Nil
  then show ?case by (simp add: clear_parts.simps)
next
  case (Cons m ms)
  then have "Object3D_remove ((a # d # m # ms) ! 2) (a # d # m # ms) = a # d # ms"
    by (simp add: Object3D_remove_def)
  with Cons show ?case by (simp add: clear_parts.simps [of "a # d # m # ms"])
qed

lemma foldl_add_part: "foldl add_part cs parts = cs @ part_meshes parts"
  by (induction parts arbitrary: cs)
     (auto simp: add_part_def part_meshes_def List.map_filter_def split: option.splits)

lemma clear_parts_after_meshes:
  "clear_parts (ambientLight # directionalLight # part_meshes parts)
     = [ambientLight, directionalLight]"
proof -
  have "\<forall>m \<in> set (part_meshes parts). m \<noteq> ambientLight \<and> m \<noteq> directionalLight"
    by (auto simp: part_meshes_def ambientLight_def directionalLight_def)
  then show ?thesis by (rule clear_parts_lights)
qed

lemma children_after_updates:
  "scene_children (after_updates us) =
     Some ([ambientLight, directionalLight] @ part_meshes (last ([] # us)))"
proof (induction us rule: rev_induct)
  case Nil
  show ?case
    by (simp add: after_updates_def mount_effect_def unmounted_def scene_children_def
        part_meshes_def List.map_filter_def)
next
  case (snoc ps us)
  then show ?case
    by (auto simp: after_updates_def parts_effect_def scene_children_def foldl_add_part
        clear_parts_after_meshes split: option.splits)
qed

lemma part_geometry_recognized:
  "part_geometry t = None \<longleftrightarrow> \<not> recognized_partType t"
  by (simp add: part_geometry_def recognized_partType_def)

lemma part_mesh_recognized:
  "part_mesh p = None \<longleftrightarrow> \<not> recognized_partType (partType p)"
  using part_geometry_recognized [of "partType p"]
  by (cases "part_geometry (partType p)") (simp_all add: part_mesh_def)

lemma map_Some_map_filter:
  "map Some (List.map_filter f xs) = map f (filter (\<lambda>x. f x \<noteq> None) xs)"
  by (induction xs) (auto simp: List.map_filter_def)

lemma part_meshes_append: "part_meshes (ps @ qs) = part_meshes ps @ part_meshes qs"
  by (simp add: part_meshes_def List.map_filter_def)

lemma part_meshes_Cons:
  "part_meshes (p # ps) =
     (case part_mesh p of None \<Rightarrow> part_meshes ps | Some m \<Rightarrow> MeshObject m # part_meshes ps)"
  by (simp add: part_meshes_def List.map_filter_def split: option.splits)

section \<open>The claims\<close>

text \<open>
  Claim C1, as the code has it. When the backend resolves with a text, \<open>generateStory\<close>
  fails, with the error \<open>Received an invalid story format from the AI.\<close>, exactly when
  \<open>JSON.parse\<close> rejects the trimmed text with the fence stripped; then
  \<open>fetchNextScene\<close> fails with that error and issues no image request. A text that
  parses is returned as the payload, whatever value it parses to: no field, type or
  invariant is checked.
\<close>

theorem generateStory_rejects_only_unparsable_text:
  assumes "generateContent net ai (story_request h c) = Inr \<lparr>response_text = Some t\<rparr>"
  shows "fst (generateStory rt net ai h c) =
           (case JSON_parse rt (cleanText (trim t)) of
              None \<Rightarrow> Inl invalid_story_format
            | Some payload \<Rightarrow> Inr payload)
       \<and> (JSON_parse rt (cleanText (trim t)) = None \<longrightarrow>
            fetchNextScene rt net ai h c =
              (Inl invalid_story_format,
               [CallGenerateContent (story_request h c),
                ConsoleError (js ''Failed to parse JSON response:'') (trim t)]))"
  using assms
  by (simp add: fetchNextScene_def generateStory_def split: option.splits)

theorem generateStory_rejects_only_unparsable_text_witness:
  \<open>fst (generateStory literal_runtime
          (scripted (text_reply (js ''{"story":'')) (images_reply [js ''AAAA'']))
          example_client [] [])
     = Inl invalid_story_format
   \<and> fst (generateStory literal_runtime
          (scripted (text_reply reply_well_formed) (images_reply [js ''AAAA'']))
          example_client [] [])
     = Inr (payload_with (JStr (js ''s'')) (JArr [JStr (js ''a''), JStr (js ''b'')]) JNull)
   \<and> valid_ScenePayload
         (payload_with (JStr (js ''s'')) (JArr [JStr (js ''a''), JStr (js ''b'')]) JNull)\<close>
proof -
  let ?N1 = "scripted (text_reply (js ''{\"story\":'')) (images_reply [js ''AAAA''])"
  let ?N2 = "scripted (text_reply reply_well_formed) (images_reply [js ''AAAA''])"
  have a1: "generateContent ?N1 example_client (story_request [] [])
              = Inr \<lparr>response_text = Some (js ''{\"story\":'')\<rparr>"
    by (simp add: scripted_def text_reply_def)
  have a2: "generateContent ?N2 example_client (story_request [] [])
              = Inr \<lparr>response_text = Some reply_well_formed\<rparr>"
    by (simp add: scripted_def text_reply_def)
  have p1: "JSON_parse literal_runtime (cleanText (trim (js ''{\"story\":''))) = None"
    by (simp add: parse_eval clean_eval)
  have v: "valid_ScenePayload
         (payload_with (JStr (js ''s'')) (JArr [JStr (js ''a''), JStr (js ''b'')]) JNull)"
    by (simp add: valid_ScenePayload_def payload_with_def is_string_def js_def is_boolean_def
        valid_habitatUpdate_def)
  from generateStory_rejects_only_unparsable_text [OF a1, of literal_runtime] p1
    generateStory_rejects_only_unparsable_text [OF a2, of literal_runtime] parse_reply_well_formed v
  show ?thesis by simp
qed

text \<open>
  The claim as stated fails: four response texts that are JSON but not a payload of the
  declared shape (no field at all; a number for the story; no choices while the game is
  not over; the part type SPHERE) are each turned into a scene by \<open>fetchNextScene\<close>.
\<close>

theorem ill_formed_payloads_are_returned:
  "fst (fetchNextScene literal_runtime
          (scripted (text_reply reply_without_fields) (images_reply [js ''AAAA'']))
          example_client [] [])
     = Inr (compose_scene (JObj []) (js ''data:image/jpeg;base64,AAAA''))
   \<and> \<not> valid_ScenePayload (JObj [] :: jsstring json)
   \<and> fst (fetchNextScene literal_runtime
          (scripted (text_reply reply_with_number_story) (images_reply [js ''AAAA'']))
          example_client [] [])
     = Inr (compose_scene
              (payload_with (JNum (js ''1'')) (JArr [JStr (js ''a''), JStr (js ''b'')]) JNull)
              (js ''data:image/jpeg;base64,AAAA''))
   \<and> \<not> valid_ScenePayload
         (payload_with (JNum (js ''1'')) (JArr [JStr (js ''a''), JStr (js ''b'')]) JNull)
   \<and> fst (fetchNextScene literal_runtime
          (scripted (text_reply reply_without_choices) (images_reply [js ''AAAA'']))
          example_client [] [])
     = Inr (compose_scene (payload_with (JStr (js ''s'')) (JArr []) JNull)
              (js ''data:image/jpeg;base64,AAAA''))
   \<and> \<not> valid_ScenePayload (payload_with (JStr (js ''s'')) (JArr []) JNull)
   \<and> fst (fetchNextScene literal_runtime
          (scripted (text_reply reply_with_sphere) (images_reply [js ''AAAA'']))
          example_client [] [])
     = Inr (compose_scene
              (payload_with (JStr (js ''s'')) (JArr [JStr (js ''a''), JStr (js ''b'')]) sphere_update)
              (js ''data:image/jpeg;base64,AAAA''))
   \<and> \<not> valid_ScenePayload
         (payload_with (JStr (js ''s'')) (JArr [JStr (js ''a''), JStr (js ''b'')]) sphere_update)"
proof -
  have url: "js ''data:image/jpeg;base64,'' @ js ''AAAA'' = js ''data:image/jpeg;base64,AAAA''"
    by (simp add: js_def)
  have empty_prompt: "get_member (JObj [] :: jsstring json) (js ''imagePrompt'') = Inr None"
    by (simp add: get_member_def own_property_def own_properties_def)
  have r1: "fst (fetchNextScene literal_runtime
          (scripted (text_reply reply_without_fields) (images_reply [js ''AAAA'']))
          example_client [] [])
     = Inr (compose_scene (JObj []) (js ''data:image/jpeg;base64,AAAA''))"
    by (simp add: fetchNextScene_unfold generateStory_text_reply parse_reply_without_fields
        empty_prompt one_image [OF template_value_undefined] url)
  have r2: "fst (fetchNextScene literal_runtime
          (scripted (text_reply reply_with_number_story) (images_reply [js ''AAAA'']))
          example_client [] [])
     = Inr (compose_scene
              (payload_with (JNum (js ''1'')) (JArr [JStr (js ''a''), JStr (js ''b'')]) JNull)
              (js ''data:image/jpeg;base64,AAAA''))"
    by (simp add: fetchNextScene_unfold generateStory_text_reply parse_reply_with_number_story
        image_prompt_of_payload_with one_image [OF template_value_string] url)
  have r3: "fst (fetchNextScene literal_runtime
          (scripted (text_reply reply_without_choices) (images_reply [js ''AAAA'']))
          example_client [] [])
     = Inr (compose_scene (payload_with (JStr (js ''s'')) (JArr []) JNull)
              (js ''data:image/jpeg;base64,AAAA''))"
    by (simp add: fetchNextScene_unfold generateStory_text_reply parse_reply_without_choices
        image_prompt_of_payload_with one_image [OF template_value_string] url)
  have r4: "fst (fetchNextScene literal_runtime
          (scripted (text_reply reply_with_sphere) (images_reply [js ''AAAA'']))
          example_client [] [])
     = Inr (compose_scene
              (payload_with (JStr (js ''s'')) (JArr [JStr (js ''a''), JStr (js ''b'')]) sphere_update)
              (js ''data:image/jpeg;base64,AAAA''))"
    by (simp add: fetchNextScene_unfold generateStory_text_reply parse_reply_with_sphere
        image_prompt_of_payload_with one_image [OF template_value_string] url)
  have v1: "\<not> valid_ScenePayload (JObj [] :: jsstring json)"
    by (simp add: valid_ScenePayload_def is_string_def)
  have v2: "\<not> valid_ScenePayload
         (payload_with (JNum (js ''1'')) (JArr [JStr (js ''a''), JStr (js ''b'')]) JNull)"
    by (simp add: valid_ScenePayload_def payload_with_def is_string_def js_def)
  have v3: "\<not> valid_ScenePayload (payload_with (JStr (js ''s'')) (JArr []) JNull)"
    by (simp add: valid_ScenePayload_def payload_with_def is_string_def js_def)
  have v4: "\<not> valid_ScenePayload
         (payload_with (JStr (js ''s'')) (JArr [JStr (js ''a''), JStr (js ''b'')]) sphere_update)"
    by (simp add: valid_ScenePayload_def payload_with_def is_string_def js_def sphere_update_def
        valid_habitatUpdate_def recognized_partType_def)
  from r1 r2 r3 r4 v1 v2 v3 v4 show ?thesis by blast
qed

text \<open>
  Claim C2. When the scene's \<open>gameOver\<close> is true the screen shows no choice button,
  whatever the scene's choices are and whether the screen is loading or not.
\<close>

theorem game_over_hides_choices:
  assumes "scene props = Some sc" "gameOver sc"
  shows "presented_choices (GameUI props) = []"
  using assms
  by (simp add: presented_choices_def GameUI_def render_choices_def split: story_panel.splits)

theorem game_over_hides_choices_witness:
  "presented_choices
     (GameUI \<lparr>scene = Some (example_scene [js ''Try again'', js ''Give up''] True),
              storyLog = [], inventory = [], habitatParts = [lander], isLoading = False\<rparr>) = []
   \<and> choices (example_scene [js ''Try again'', js ''Give up''] True)
       = [js ''Try again'', js ''Give up'']"
  using game_over_hides_choices
    [of "\<lparr>scene = Some (example_scene [js ''Try again'', js ''Give up''] True),
              storyLog = [], inventory = [], habitatParts = [lander], isLoading = False\<rparr>"
        "example_scene [js ''Try again'', js ''Give up''] True"]
  by (simp add: example_scene_def)

text \<open>
  Claim C3. After the viewer is mounted, whatever part lists it has been given before,
  the scene graph after the parts effect has run on the current list is the two lights
  followed by the meshes of the current list alone: the loop removes every mesh of the
  previous list and leaves the two lights, and the meshes added are those of the parts
  with a recognized part type, one each, in the order of the list.
\<close>

theorem reconciliation_replaces_all_meshes:
  "scene_children (after_updates (updates @ [parts])) =
     Some ([ambientLight, directionalLight] @ part_meshes parts)
   \<and> clear_parts ([ambientLight, directionalLight] @ part_meshes previous)
       = [ambientLight, directionalLight]
   \<and> part_meshes parts = map MeshObject (List.map_filter part_mesh parts)
   \<and> map Some (List.map_filter part_mesh parts) =
       map part_mesh (filter (\<lambda>p. recognized_partType (partType p)) parts)"
proof (intro conjI)
  show "scene_children (after_updates (updates @ [parts])) =
     Some ([ambientLight, directionalLight] @ part_meshes parts)"
    by (simp add: children_after_updates)
  show "clear_parts ([ambientLight, directionalLight] @ part_meshes previous)
       = [ambientLight, directionalLight]"
    by (simp add: clear_parts_after_meshes)
  show "part_meshes parts = map MeshObject (List.map_filter part_mesh parts)"
    by (simp add: part_meshes_def)
  show "map Some (List.map_filter part_mesh parts) =
       map part_mesh (filter (\<lambda>p. recognized_partType (partType p)) parts)"
    by (simp add: map_Some_map_filter part_mesh_recognized)
qed

theorem reconciliation_replaces_all_meshes_witness:
  "scene_children
     (after_updates
        [[lander],
         [lander, example_part (js ''SPHERE'') 1, example_part (js ''DOME'') 2],
         [example_part (js ''TUBE'') 3, example_part (js ''AIRLOCK'') 4]])
   = Some [ambientLight, directionalLight,
           MeshObject (example_mesh (CylinderGeometry 0.2 0.2 1 24) 3),
           MeshObject (example_mesh (BoxGeometry 0.4 0.6 0.4) 4)]"
proof -
  have "part_meshes [example_part (js ''TUBE'') 3, example_part (js ''AIRLOCK'') 4]
          = [MeshObject (example_mesh (CylinderGeometry 0.2 0.2 1 24) 3),
             MeshObject (example_mesh (BoxGeometry 0.4 0.6 0.4) 4)]"
    by (simp add: part_meshes_Cons part_mesh_def part_geometry_def example_part_def
        example_mesh_def js_def part_meshes_def List.map_filter_def)
  with reconciliation_replaces_all_meshes
         [of "[[lander], [lander, example_part (js ''SPHERE'') 1, example_part (js ''DOME'') 2]]"
             "[example_part (js ''TUBE'') 3, example_part (js ''AIRLOCK'') 4]"]
  show ?thesis by simp
qed

text \<open>
  Claim C4. The geometry of a part's mesh depends on its part type alone: CYLINDER
  gives a cylinder of radius 0.5 (top and bottom) and height 1, DOME the upper half of
  a sphere of radius 0.5, TUBE a cylinder of radius 0.2 and height 1, AIRLOCK a box of
  0.4 by 0.6 by 0.4; position, rotation and scale of the mesh are the part's. The
  lander at the origin, unrotated and with scale 1, gives the scene one such cylinder.
\<close>

theorem part_mesh_by_partType:
  "(partType p = js ''CYLINDER'' \<longrightarrow>
      part_mesh p = Some \<lparr>mesh_geometry = CylinderGeometry 0.5 0.5 1 32,
                           mesh_material = part_material, mesh_position = position p,
                           mesh_rotation = rotation p, mesh_scale = scale p\<rparr>)
 \<and> (partType p = js ''DOME'' \<longrightarrow>
      part_mesh p = Some \<lparr>mesh_geometry =
                             SphereGeometry 0.5 32 16 (PI_times 0) (PI_times 2)
                               (PI_times 0) (PI_times (1 / 2)),
                           mesh_material = part_material, mesh_position = position p,
                           mesh_rotation = rotation p, mesh_scale = scale p\<rparr>)
 \<and> (partType p = js ''TUBE'' \<longrightarrow>
      part_mesh p = Some \<lparr>mesh_geometry = CylinderGeometry 0.2 0.2 1 24,
                           mesh_material = part_material, mesh_position = position p,
                           mesh_rotation = rotation p, mesh_scale = scale p\<rparr>)
 \<and> (partType p = js ''AIRLOCK'' \<longrightarrow>
      part_mesh p = Some \<lparr>mesh_geometry = BoxGeometry 0.4 0.6 0.4,
                           mesh_material = part_material, mesh_position = position p,
                           mesh_rotation = rotation p, mesh_scale = scale p\<rparr>)
 \<and> (partType p = partType q \<longrightarrow>
      map_option mesh_geometry (part_mesh p) = map_option mesh_geometry (part_mesh q))"
  by (simp add: part_mesh_def part_geometry_def js_def split: option.splits)

theorem part_mesh_by_partType_witness:
  "scene_children (after_updates [[lander]]) =
     Some [ambientLight, directionalLight,
           MeshObject \<lparr>mesh_geometry = CylinderGeometry 0.5 0.5 1 32,
                        mesh_material = part_material,
                        mesh_position = \<lparr>coord_x = 0, coord_y = 0, coord_z = 0\<rparr>,
                        mesh_rotation = \<lparr>coord_x = 0, coord_y = 0, coord_z = 0\<rparr>,
                        mesh_scale = \<lparr>coord_x = 1, coord_y = 1, coord_z = 1\<rparr>\<rparr>]
   \<and> part_mesh (example_part (js ''DOME'') 2) =
       Some (example_mesh (SphereGeometry 0.5 32 16 (PI_times 0) (PI_times 2)
                             (PI_times 0) (PI_times (1 / 2))) 2)
   \<and> part_mesh (example_part (js ''TUBE'') 3) = Some (example_mesh (CylinderGeometry 0.2 0.2 1 24) 3)
   \<and> part_mesh (example_part (js ''AIRLOCK'') 4) = Some (example_mesh (BoxGeometry 0.4 0.6 0.4) 4)"
proof -
  have "part_mesh lander =
          Some \<lparr>mesh_geometry = CylinderGeometry 0.5 0.5 1 32,
                mesh_material = part_material,
                mesh_position = \<lparr>coord_x = 0, coord_y = 0, coord_z = 0\<rparr>,
                mesh_rotation = \<lparr>coord_x = 0, coord_y = 0, coord_z = 0\<rparr>,
                mesh_scale = \<lparr>coord_x = 1, coord_y = 1, coord_z = 1\<rparr>\<rparr>"
    using part_mesh_by_partType [of lander lander] by (simp add: lander_def)
  then have "scene_children (after_updates [[lander]]) =
     Some [ambientLight, directionalLight,
           MeshObject \<lparr>mesh_geometry = CylinderGeometry 0.5 0.5 1 32,
                        mesh_material = part_material,
                        mesh_position = \<lparr>coord_x = 0, coord_y = 0, coord_z = 0\<rparr>,
                        mesh_rotation = \<lparr>coord_x = 0, coord_y = 0, coord_z = 0\<rparr>,
                        mesh_scale = \<lparr>coord_x = 1, coord_y = 1, coord_z = 1\<rparr>\<rparr>]"
    by (simp add: children_after_updates part_meshes_Cons part_meshes_def List.map_filter_def)
  moreover have "part_mesh (example_part (js ''DOME'') 2) =
       Some (example_mesh (SphereGeometry 0.5 32 16 (PI_times 0) (PI_times 2)
                             (PI_times 0) (PI_times (1 / 2))) 2)"
    using part_mesh_by_partType [of "example_part (js ''DOME'') 2" lander]
    by (simp add: example_part_def example_mesh_def)
  moreover have "part_mesh (example_part (js ''TUBE'') 3) = Some (example_mesh (CylinderGeometry 0.2 0.2 1 24) 3)"
    using part_mesh_by_partType [of "example_part (js ''TUBE'') 3" lander]
    by (simp add: example_part_def example_mesh_def)
  moreover have "part_mesh (example_part (js ''AIRLOCK'') 4) = Some (example_mesh (BoxGeometry 0.4 0.6 0.4) 4)"
    using part_mesh_by_partType [of "example_part (js ''AIRLOCK'') 4" lander]
    by (simp add: example_part_def example_mesh_def)
  ultimately show ?thesis by blast
qed

text \<open>
  Claim C5. A part whose part type is none of CYLINDER, DOME, TUBE and AIRLOCK gets no
  mesh: the callback returns the children as they are, and the scene graph is the one
  the list without that part gives. The callback has no way to fail: the default
  branch returns before the part's vectors are read.
\<close>

theorem unrecognized_part_is_skipped:
  assumes "\<not> recognized_partType (partType p)"
  shows "part_mesh p = None \<and> add_part cs p = cs
       \<and> scene_children (after_updates (updates @ [ps @ p # qs]))
           = scene_children (after_updates (updates @ [ps @ qs]))"
proof -
  from assms have none: "part_mesh p = None"
    by (simp add: part_mesh_recognized)
  then have "part_meshes (ps @ p # qs) = part_meshes (ps @ qs)"
    by (simp add: part_meshes_append part_meshes_Cons)
  with none show ?thesis
    by (simp add: add_part_def children_after_updates)
qed

theorem unrecognized_part_is_skipped_witness:
  "add_part [ambientLight, directionalLight] (example_part (js ''SPHERE'') 1)
     = [ambientLight, directionalLight]
   \<and> scene_children (after_updates [[lander, example_part (js ''SPHERE'') 1]])
       = scene_children (after_updates [[lander]])"
proof -
  have "\<not> recognized_partType (partType (example_part (js ''SPHERE'') 1))"
    by (simp add: recognized_partType_def example_part_def js_def)
  from unrecognized_part_is_skipped [OF this, of "[ambientLight, directionalLight]" "[]" "[lander]" "[]"]
  show ?thesis by simp
qed

text \<open>
  Claim C6. \<open>fetchNextScene\<close> issues the narrative request first and then, only when
  the narrative step has produced a payload whose \<open>imagePrompt\<close> can be read and turned
  into a string, one image request whose prompt is that string followed by the fixed
  qualifiers; no request is issued twice. A rejection by the narrative backend fails the
  narrative step, and whenever the narrative step fails (or the prompt cannot be read or
  turned into a string) its error is the result and no image request is issued. A
  rejection by the image backend is the result, and so is the error
  \<open>Failed to generate an image.\<close> when the image response has no list of generated
  images or an empty one.
\<close>

theorem fetchNextScene_two_steps_no_retry:
  "(\<forall>e. generateContent net ai (story_request h c) = Inl e \<longrightarrow>
       fst (generateStory rt net ai h c) = Inl e)
 \<and> (\<forall>e. fst (generateStory rt net ai h c) = Inl e \<longrightarrow>
       fst (fetchNextScene rt net ai h c) = Inl e
     \<and> network_calls (snd (fetchNextScene rt net ai h c)) =
         [CallGenerateContent (story_request h c)])
 \<and> (\<forall>payload e. fst (generateStory rt net ai h c) = Inr payload
       \<and> get_member payload (js ''imagePrompt'') = Inl e \<longrightarrow>
       fst (fetchNextScene rt net ai h c) = Inl e
     \<and> network_calls (snd (fetchNextScene rt net ai h c)) =
         [CallGenerateContent (story_request h c)])
 \<and> (\<forall>payload p e. fst (generateStory rt net ai h c) = Inr payload
       \<and> get_member payload (js ''imagePrompt'') = Inr p
       \<and> template_value rt p = Inl e \<longrightarrow>
       fst (fetchNextScene rt net ai h c) = Inl e
     \<and> network_calls (snd (fetchNextScene rt net ai h c)) =
         [CallGenerateContent (story_request h c)])
 \<and> (\<forall>payload p s. fst (generateStory rt net ai h c) = Inr payload
       \<and> get_member payload (js ''imagePrompt'') = Inr p
       \<and> template_value rt p = Inr s \<longrightarrow>
       network_calls (snd (fetchNextScene rt net ai h c)) =
         [CallGenerateContent (story_request h c), CallGenerateImages (image_request s)]
     \<and> (\<forall>e. generateImages net ai (image_request s) = Inl e \<longrightarrow>
            fst (fetchNextScene rt net ai h c) = Inl e)
     \<and> (generateImages net ai (image_request s) = Inr \<lparr>generatedImages = None\<rparr>
          \<or> generateImages net ai (image_request s) = Inr \<lparr>generatedImages = Some []\<rparr> \<longrightarrow>
            fst (fetchNextScene rt net ai h c) = Inl (Error (js ''Failed to generate an image.'')))
     \<and> (\<forall>e. fst (generateImage rt net ai p) = Inl e \<longrightarrow>
            fst (fetchNextScene rt net ai h c) = Inl e))
 \<and> (\<forall>t payload s. generateContent net ai (story_request h c) = Inr \<lparr>response_text = Some t\<rparr>
       \<and> JSON_parse rt (cleanText (trim t)) = Some payload
       \<and> own_property payload (js ''imagePrompt'') = Some (JStr s) \<longrightarrow>
       network_calls (snd (fetchNextScene rt net ai h c)) =
         [CallGenerateContent (story_request h c),
          CallGenerateImages
            \<lparr>gi_model = js ''imagen-4.0-generate-001'',
             gi_prompt = s @ js '', on the planet Mars, sci-fi, realistic'',
             gi_config =
               \<lparr>gi_numberOfImages = 1,
                gi_outputMimeType = js ''image/jpeg'',
                gi_aspectRatio = js ''16:9''\<rparr>\<rparr>])"
proof (intro conjI allI impI)
  fix e assume "generateContent net ai (story_request h c) = Inl e"
  then show "fst (generateStory rt net ai h c) = Inl e"
    by (simp add: generateStory_def)
next
  fix e assume "fst (generateStory rt net ai h c) = Inl e"
  then show "fst (fetchNextScene rt net ai h c) = Inl e"
    and "network_calls (snd (fetchNextScene rt net ai h c)) =
           [CallGenerateContent (story_request h c)]"
    by (simp_all add: fetchNextScene_unfold network_calls_generateStory)
next
  fix payload e
  assume "fst (generateStory rt net ai h c) = Inr payload
            \<and> get_member payload (js ''imagePrompt'') = Inl e"
  then show "fst (fetchNextScene rt net ai h c) = Inl e"
    and "network_calls (snd (fetchNextScene rt net ai h c)) =
           [CallGenerateContent (story_request h c)]"
    by (simp_all add: fetchNextScene_unfold network_calls_generateStory)
next
  fix payload p e
  assume "fst (generateStory rt net ai h c) = Inr payload
            \<and> get_member payload (js ''imagePrompt'') = Inr p
            \<and> template_value rt p = Inl e"
  then show "fst (fetchNextScene rt net ai h c) = Inl e"
    and "network_calls (snd (fetchNextScene rt net ai h c)) =
           [CallGenerateContent (story_request h c)]"
    by (simp_all add: fetchNextScene_unfold network_calls_generateStory network_calls_append
        generateImage_throws network_calls_Nil)
next
  fix payload p s
  assume a: "fst (generateStory rt net ai h c) = Inr payload
               \<and> get_member payload (js ''imagePrompt'') = Inr p
               \<and> template_value rt p = Inr s"
  then show "network_calls (snd (fetchNextScene rt net ai h c)) =
         [CallGenerateContent (story_request h c), CallGenerateImages (image_request s)]"
    by (simp add: fetchNextScene_unfold network_calls_append network_calls_generateStory
        network_calls_generateImage)
  {
    fix e assume "generateImages net ai (image_request s) = Inl e"
    with a show "fst (fetchNextScene rt net ai h c) = Inl e"
      by (simp add: fetchNextScene_unfold generateImage_rejected)
  }
  {
    assume "generateImages net ai (image_request s) = Inr \<lparr>generatedImages = None\<rparr>
          \<or> generateImages net ai (image_request s) = Inr \<lparr>generatedImages = Some []\<rparr>"
    with a have "fst (generateImage rt net ai p) = Inl no_image"
      by (simp add: generateImage_no_image)
    with a show "fst (fetchNextScene rt net ai h c) = Inl (Error (js ''Failed to generate an image.''))"
      by (simp add: fetchNextScene_unfold no_image_def)
  }
  {
    fix e assume "fst (generateImage rt net ai p) = Inl e"
    with a show "fst (fetchNextScene rt net ai h c) = Inl e"
      by (simp add: fetchNextScene_unfold)
  }
next
  fix t payload s
  assume a: "generateContent net ai (story_request h c) = Inr \<lparr>response_text = Some t\<rparr>
       \<and> JSON_parse rt (cleanText (trim t)) = Some payload
       \<and> own_property payload (js ''imagePrompt'') = Some (JStr s)"
  then have "fst (generateStory rt net ai h c) = Inr payload"
    by (simp add: generateStory_of_reply)
  moreover from a have "get_member payload (js ''imagePrompt'') = Inr (Some (JStr s))"
    by (simp add: get_member_of_own_property)
  ultimately have "network_calls (snd (fetchNextScene rt net ai h c)) =
         [CallGenerateContent (story_request h c), CallGenerateImages (image_request s)]"
    by (simp add: fetchNextScene_unfold network_calls_append network_calls_generateStory
        network_calls_generateImage [OF template_value_string])
  then show "network_calls (snd (fetchNextScene rt net ai h c)) =
         [CallGenerateContent (story_request h c),
          CallGenerateImages
            \<lparr>gi_model = js ''imagen-4.0-generate-001'',
             gi_prompt = s @ js '', on the planet Mars, sci-fi, realistic'',
             gi_config =
               \<lparr>gi_numberOfImages = 1,
                gi_outputMimeType = js ''image/jpeg'',
                gi_aspectRatio = js ''16:9''\<rparr>\<rparr>]"
    by (simp add: image_request_def)
qed

theorem fetchNextScene_two_steps_no_retry_witness:
  \<open>fst (fetchNextScene literal_runtime
          (scripted (Inl (Rejected (js ''offline''))) (images_reply []))
          example_client [] [])
     = Inl (Rejected (js ''offline''))
   \<and> network_calls (snd (fetchNextScene literal_runtime
          (scripted (Inl (Rejected (js ''offline''))) (images_reply []))
          example_client [] []))
     = [CallGenerateContent (story_request [] [])]
   \<and> fst (fetchNextScene literal_runtime
          (scripted (text_reply (js ''{"imagePrompt":"p"}'')) (images_reply []))
          example_client [] [])
     = Inl (Error (js ''Failed to generate an image.''))
   \<and> network_calls (snd (fetchNextScene literal_runtime
          (scripted (text_reply (js ''{"imagePrompt":"p"}'')) (images_reply []))
          example_client [] []))
     = [CallGenerateContent (story_request [] []),
        CallGenerateImages
          \<lparr>gi_model = js ''imagen-4.0-generate-001'',
           gi_prompt = js ''p, on the planet Mars, sci-fi, realistic'',
           gi_config =
             \<lparr>gi_numberOfImages = 1,
              gi_outputMimeType = js ''image/jpeg'',
              gi_aspectRatio = js ''16:9''\<rparr>\<rparr>]
   \<and> fst (fetchNextScene literal_runtime
          (scripted (text_reply (js ''{"imagePrompt":"p"}'')) (Inl (Rejected (js ''quota''))))
          example_client [] [])
     = Inl (Rejected (js ''quota''))
   \<and> fst (fetchNextScene literal_runtime
          (scripted (text_reply (js ''{"imagePrompt":{"toString":1}}'')) (images_reply [js ''AAAA'']))
          example_client [] [])
     = Inl TypeError
   \<and> network_calls (snd (fetchNextScene literal_runtime
          (scripted (text_reply (js ''{"imagePrompt":{"toString":1}}'')) (images_reply [js ''AAAA'']))
          example_client [] []))
     = [CallGenerateContent (story_request [] [])]\<close>
proof -
  let ?A = "example_client"
  let ?T = "js ''{\"imagePrompt\":\"p\"}''"
  let ?U = "js ''{\"imagePrompt\":{\"toString\":1}}''"
  let ?N1 = "scripted (Inl (Rejected (js ''offline''))) (images_reply [])"
  let ?N2 = "scripted (text_reply ?T) (images_reply [])"
  let ?N3 = "scripted (text_reply ?T) (Inl (Rejected (js ''quota'')))"
  let ?N4 = "scripted (text_reply ?U) (images_reply [js ''AAAA''])"
  let ?P = "JObj [(js ''imagePrompt'', JStr (js ''p''))] :: jsstring json"
  let ?Q = "JObj [(js ''imagePrompt'', JObj [(js ''toString'', JNum (js ''1''))])] :: jsstring json"
  note th = fetchNextScene_two_steps_no_retry
  \<comment> \<open>the narrative backend rejects\<close>
  have b1: "generateContent ?N1 ?A (story_request [] []) = Inl (Rejected (js ''offline''))"
    by (simp add: scripted_def)
  from th [of ?N1 ?A "[]" "[]" literal_runtime] b1
  have s1: "fst (generateStory literal_runtime ?N1 ?A [] []) = Inl (Rejected (js ''offline''))"
    by blast
  from th [of ?N1 ?A "[]" "[]" literal_runtime] s1
  have r1: "fst (fetchNextScene literal_runtime ?N1 ?A [] []) = Inl (Rejected (js ''offline''))"
    and r1': "network_calls (snd (fetchNextScene literal_runtime ?N1 ?A [] []))
              = [CallGenerateContent (story_request [] [])]"
    by blast+
  \<comment> \<open>a payload with a string prompt\<close>
  have pT: "JSON_parse literal_runtime (cleanText (trim ?T)) = Some ?P"
    by (simp add: parse_eval clean_eval)
  have mP: "get_member ?P (js ''imagePrompt'') = Inr (Some (JStr (js ''p'')))"
    by (simp add: get_member_def own_property_def own_properties_def)
  have oP: "own_property ?P (js ''imagePrompt'') = Some (JStr (js ''p''))"
    by (simp add: own_property_def own_properties_def)
  have tP: "template_value literal_runtime (Some (JStr (js ''p''))) = Inr (js ''p'')"
    by (simp add: template_value_def)
  have suffix: "js ''p'' @ js '', on the planet Mars, sci-fi, realistic''
                  = js ''p, on the planet Mars, sci-fi, realistic''"
    by (simp add: js_def)
  \<comment> \<open>no image generated\<close>
  have b2: "generateContent ?N2 ?A (story_request [] []) = Inr \<lparr>response_text = Some ?T\<rparr>"
    by (simp add: scripted_def text_reply_def)
  have s2: "fst (generateStory literal_runtime ?N2 ?A [] []) = Inr ?P"
    by (simp add: generateStory_text_reply pT)
  have i2: "generateImages ?N2 ?A (image_request (js ''p'')) = Inr \<lparr>generatedImages = Some []\<rparr>"
    by (simp add: scripted_def images_reply_def)
  from th [of ?N2 ?A "[]" "[]" literal_runtime] s2 mP tP i2
  have r2: "fst (fetchNextScene literal_runtime ?N2 ?A [] [])
              = Inl (Error (js ''Failed to generate an image.''))"
    by blast
  from th [of ?N2 ?A "[]" "[]" literal_runtime] b2 pT oP
  have "network_calls (snd (fetchNextScene literal_runtime ?N2 ?A [] [])) =
         [CallGenerateContent (story_request [] []),
          CallGenerateImages
            \<lparr>gi_model = js ''imagen-4.0-generate-001'',
             gi_prompt = js ''p'' @ js '', on the planet Mars, sci-fi, realistic'',
             gi_config =
               \<lparr>gi_numberOfImages = 1,
                gi_outputMimeType = js ''image/jpeg'',
                gi_aspectRatio = js ''16:9''\<rparr>\<rparr>]"
    by blast
  then have r2': "network_calls (snd (fetchNextScene literal_runtime ?N2 ?A [] [])) =
         [CallGenerateContent (story_request [] []),
          CallGenerateImages
            \<lparr>gi_model = js ''imagen-4.0-generate-001'',
             gi_prompt = js ''p, on the planet Mars, sci-fi, realistic'',
             gi_config =
               \<lparr>gi_numberOfImages = 1,
                gi_outputMimeType = js ''image/jpeg'',
                gi_aspectRatio = js ''16:9''\<rparr>\<rparr>]"
    by (simp only: suffix)
  \<comment> \<open>the image backend rejects\<close>
  have s3: "fst (generateStory literal_runtime ?N3 ?A [] []) = Inr ?P"
    by (simp add: generateStory_text_reply pT)
  have i3: "generateImages ?N3 ?A (image_request (js ''p'')) = Inl (Rejected (js ''quota''))"
    by (simp add: scripted_def)
  from th [of ?N3 ?A "[]" "[]" literal_runtime] s3 mP tP i3
  have r3: "fst (fetchNextScene literal_runtime ?N3 ?A [] []) = Inl (Rejected (js ''quota''))"
    by blast
  \<comment> \<open>a prompt that cannot be turned into a string\<close>
  have pU: "JSON_parse literal_runtime (cleanText (trim ?U)) = Some ?Q"
    by (simp add: parse_eval clean_eval number_eval)
  have s4: "fst (generateStory literal_runtime ?N4 ?A [] []) = Inr ?Q"
    by (simp add: generateStory_text_reply pU)
  have mQ: "get_member ?Q (js ''imagePrompt'')
              = Inr (Some (JObj [(js ''toString'', JNum (js ''1''))]))"
    by (simp add: get_member_def own_property_def own_properties_def)
  have tQ: "template_value literal_runtime (Some (JObj [(js ''toString'', JNum (js ''1''))]))
              = Inl TypeError"
    by (simp add: template_value_def)
  from th [of ?N4 ?A "[]" "[]" literal_runtime] s4 mQ tQ
  have r4: "fst (fetchNextScene literal_runtime ?N4 ?A [] []) = Inl TypeError"
    and r4': "network_calls (snd (fetchNextScene literal_runtime ?N4 ?A [] []))
              = [CallGenerateContent (story_request [] [])]"
    by blast+
  from r1 r1' r2 r2' r3 r4 r4' show ?thesis by blast
qed

text \<open>
  Claim C7. Whatever text \<open>t\<close> the backend means to send, when it arrives wrapped in a
  markdown fence (the json marker and a line feed before it, a line feed and the
  closing fence after it), trimming and the two replacements give back \<open>t\<close> itself, so
  \<open>JSON.parse\<close> sees the unwrapped text and returns what it returns for \<open>t\<close>: the
  stripping is a left inverse of the wrapping. When \<open>t\<close> is well formed, with the
  value \<open>v\<close>, \<open>generateStory\<close> returns \<open>v\<close> for the unwrapped response and for the
  response wrapped in the fence in any of its four forms (each line feed present or not).
\<close>

theorem fenced_response_parses_as_unwrapped:
  "cleanText (trim (wrap_in_fence t)) = t
   \<and> JSON_parse rt (cleanText (trim (wrap_in_fence t))) = JSON_parse rt t
   \<and> (\<forall>v. JSON_parse rt t = Some v \<longrightarrow>
          fst (generateStory rt (scripted (text_reply (fenced a b t)) r) ai h c) = Inr v
        \<and> fst (generateStory rt (scripted (text_reply t) r) ai h c) = Inr v)"
  by (simp add: cleanText_wrap_in_fence generateStory_text_reply JSON_parse_cleaned
      JSON_parse_fenced)

theorem fenced_response_parses_as_unwrapped_witness:
  \<open>fst (generateStory literal_runtime
          (scripted (text_reply (fenced True True (js ''{"gameOver":true}''))) (images_reply []))
          example_client [] [])
     = Inr (JObj [(js ''gameOver'', JBool True)])
   \<and> fst (generateStory literal_runtime
          (scripted (text_reply (fenced False False (js ''{"gameOver":true}''))) (images_reply []))
          example_client [] [])
     = Inr (JObj [(js ''gameOver'', JBool True)])
   \<and> fst (generateStory literal_runtime
          (scripted (text_reply (js ''{"gameOver":true}'')) (images_reply []))
          example_client [] [])
     = Inr (JObj [(js ''gameOver'', JBool True)])\<close>
proof -
  have "JSON_parse literal_runtime (js ''{\"gameOver\":true}'')
          = Some (JObj [(js ''gameOver'', JBool True)])"
    by (simp add: parse_eval)
  with fenced_response_parses_as_unwrapped
         [of "js ''{\"gameOver\":true}''" literal_runtime True True "images_reply []"
             example_client "[]" "[]"]
       fenced_response_parses_as_unwrapped
         [of "js ''{\"gameOver\":true}''" literal_runtime False False "images_reply []"
             example_client "[]" "[]"]
  show ?thesis by blast
qed

text \<open>
  Claim C8. \<open>generateStory\<close> issues exactly one narrative request, and its content
  is: with the empty history, the fixed introductory scenario, the same for every
  choice; with a non-empty history, the composed prompt, which embeds the history and
  the chosen action as contiguous parts.
\<close>

theorem story_request_content:
  "network_calls (snd (generateStory rt net ai h c)) = [CallGenerateContent (story_request h c)]
   \<and> gc_contents (story_request [] c) = intro_content
   \<and> (h \<noteq> [] \<longrightarrow>
        gc_contents (story_request h c) =
          js ''Here is the story so far:'' @ [LF] @ h @ [LF, LF]
          @ js ''The player chose to: '' @ [DQUOTE] @ c @ [DQUOTE] @ js ''.'' @ [LF, LF]
          @ js ''Continue the story. What happens next?''
      \<and> sublist h (gc_contents (story_request h c))
      \<and> sublist c (gc_contents (story_request h c)))"
proof (intro conjI impI)
  show "network_calls (snd (generateStory rt net ai h c)) = [CallGenerateContent (story_request h c)]"
    by (rule network_calls_generateStory)
  show "gc_contents (story_request [] c) = intro_content"
    by (simp add: story_request_def story_content_def)
  assume h: "h \<noteq> []"
  then show eq: "gc_contents (story_request h c) =
          js ''Here is the story so far:'' @ [LF] @ h @ [LF, LF]
          @ js ''The player chose to: '' @ [DQUOTE] @ c @ [DQUOTE] @ js ''.'' @ [LF, LF]
          @ js ''Continue the story. What happens next?''"
    by (simp add: story_request_def story_content_def)
  show "sublist h (gc_contents (story_request h c))"
    unfolding eq sublist_def
    by (rule exI [of _ "js ''Here is the story so far:'' @ [LF]"], rule exI) simp
  show "sublist c (gc_contents (story_request h c))"
    unfolding eq sublist_def
    by (rule exI [of _ "js ''Here is the story so far:'' @ [LF] @ h @ [LF, LF]
          @ js ''The player chose to: '' @ [DQUOTE]"], rule exI) simp
qed

theorem story_request_content_witness:
  "gc_contents (story_request (js ''You wake up.'') (js ''Look around'')) =
          js ''Here is the story so far:'' @ [LF] @ js ''You wake up.'' @ [LF, LF]
          @ js ''The player chose to: '' @ [DQUOTE] @ js ''Look around'' @ [DQUOTE] @ js ''.'' @ [LF, LF]
          @ js ''Continue the story. What happens next?''
   \<and> sublist (js ''Look around'') (gc_contents (story_request (js ''You wake up.'') (js ''Look around'')))
   \<and> gc_contents (story_request [] (js ''Look around'')) = intro_content"
proof -
  have "js ''You wake up.'' \<noteq> []" by (simp add: js_def)
  with story_request_content [of literal_runtime "scripted (text_reply []) (images_reply [])"
      example_client "js ''You wake up.''" "js ''Look around''"]
  show ?thesis by blast
qed

text \<open>
  Claim C9. When \<open>API_KEY\<close> is absent from the process environment, loading the
  module throws the error before the client is built, and a caller that imports the
  module to fetch a scene gets that error and no request is issued.
\<close>

theorem missing_api_key_is_fatal:
  "env (js ''API_KEY'') = None \<Longrightarrow>
     load_service env = Inl (Error (js ''API_KEY environment variable is not set.''))
   \<and> import_and_fetchNextScene rt net env h c =
       (Inl (Error (js ''API_KEY environment variable is not set.'')), [])"
  by (simp add: load_service_def import_and_fetchNextScene_def)

theorem missing_api_key_is_fatal_witness:
  "import_and_fetchNextScene literal_runtime
     (scripted (text_reply (js ''{}'')) (images_reply [js ''AAAA'']))
     Map.empty [] []
   = (Inl (Error (js ''API_KEY environment variable is not set.'')), [])"
  using missing_api_key_is_fatal [of Map.empty literal_runtime
      "scripted (text_reply (js ''{}'')) (images_reply [js ''AAAA''])" "[]" "[]"]
  by simp

text \<open>
  Claim C10. The scene a successful \<open>fetchNextScene\<close> returns has the payload's own
  \<open>story\<close>, \<open>imagePrompt\<close>, \<open>choices\<close>, \<open>newItem\<close>, \<open>gameOver\<close> and
  \<open>habitatUpdate\<close>, and every other property of the payload but \<open>imageUrl\<close>,
  unchanged; \<open>imageUrl\<close> is the resolved image reference.
\<close>

theorem scene_keeps_payload_fields:
  assumes "fetchNextScene rt net ai h c = (Inr result, fx)"
  shows "\<exists>payload url.
           fst (generateStory rt net ai h c) = Inr payload
         \<and> own_property result (js ''story'') = own_property payload (js ''story'')
         \<and> own_property result (js ''imagePrompt'') = own_property payload (js ''imagePrompt'')
         \<and> own_property result (js ''choices'') = own_property payload (js ''choices'')
         \<and> own_property result (js ''newItem'') = own_property payload (js ''newItem'')
         \<and> own_property result (js ''gameOver'') = own_property payload (js ''gameOver'')
         \<and> own_property result (js ''habitatUpdate'') = own_property payload (js ''habitatUpdate'')
         \<and> (\<forall>name. name \<noteq> js ''imageUrl'' \<longrightarrow>
                own_property result name = own_property payload name)
         \<and> own_property result (js ''imageUrl'') = Some (JStr url)"
proof -
  from assms obtain payload url where
    p: "fst (generateStory rt net ai h c) = Inr payload" and r: "result = compose_scene payload url"
    by (auto simp: fetchNextScene_unfold split: sum.splits)
  have names: "js ''story'' \<noteq> js ''imageUrl''" "js ''imagePrompt'' \<noteq> js ''imageUrl''"
    "js ''choices'' \<noteq> js ''imageUrl''" "js ''newItem'' \<noteq> js ''imageUrl''"
    "js ''gameOver'' \<noteq> js ''imageUrl''" "js ''habitatUpdate'' \<noteq> js ''imageUrl''"
    by (simp_all add: js_def)
  show ?thesis
    apply (rule exI [of _ payload], rule exI [of _ url])
    using p names by (simp add: r own_property_compose_scene)
qed

theorem scene_keeps_payload_fields_witness:
  "\<exists>result fx.
     fetchNextScene literal_runtime
       (scripted (text_reply reply_well_formed) (images_reply [js ''AAAA'']))
       example_client [] [] = (Inr result, fx)
   \<and> own_property result (js ''story'') = Some (JStr (js ''s''))
   \<and> own_property result (js ''imagePrompt'') = Some (JStr (js ''p''))
   \<and> own_property result (js ''choices'') = Some (JArr [JStr (js ''a''), JStr (js ''b'')])
   \<and> own_property result (js ''newItem'') = Some (JStr [])
   \<and> own_property result (js ''gameOver'') = Some (JBool False)
   \<and> own_property result (js ''habitatUpdate'') = Some JNull
   \<and> own_property result (js ''imageUrl'') = Some (JStr (js ''data:image/jpeg;base64,AAAA''))"
proof -
  let ?N = "scripted (text_reply reply_well_formed) (images_reply [js ''AAAA''])"
  let ?P = "payload_with (JStr (js ''s'')) (JArr [JStr (js ''a''), JStr (js ''b'')]) JNull"
  have url: "js ''data:image/jpeg;base64,'' @ js ''AAAA'' = js ''data:image/jpeg;base64,AAAA''"
    by (simp add: js_def)
  have story: "fst (generateStory literal_runtime ?N example_client [] []) = Inr ?P"
    by (simp add: generateStory_text_reply parse_reply_well_formed)
  then have "fst (fetchNextScene literal_runtime ?N example_client [] [])
               = Inr (compose_scene ?P (js ''data:image/jpeg;base64,AAAA''))"
    by (simp add: fetchNextScene_unfold image_prompt_of_payload_with one_image [OF template_value_string] url)
  then obtain fx where run: "fetchNextScene literal_runtime ?N example_client [] []
               = (Inr (compose_scene ?P (js ''data:image/jpeg;base64,AAAA'')), fx)"
    by (metis prod.collapse)
  have fields:
    "own_property ?P (js ''story'') = Some (JStr (js ''s''))"
    "own_property ?P (js ''imagePrompt'') = Some (JStr (js ''p''))"
    "own_property ?P (js ''choices'') = Some (JArr [JStr (js ''a''), JStr (js ''b'')])"
    "own_property ?P (js ''newItem'') = Some (JStr [])"
    "own_property ?P (js ''gameOver'') = Some (JBool False)"
    "own_property ?P (js ''habitatUpdate'') = Some JNull"
    by (simp_all add: own_property_def own_properties_def payload_with_def js_def)
  from scene_keeps_payload_fields [OF run] story fields
  have "own_property (compose_scene ?P (js ''data:image/jpeg;base64,AAAA'')) (js ''story'') = Some (JStr (js ''s''))
   \<and> own_property (compose_scene ?P (js ''data:image/jpeg;base64,AAAA'')) (js ''imagePrompt'') = Some (JStr (js ''p''))
   \<and> own_property (compose_scene ?P (js ''data:image/jpeg;base64,AAAA'')) (js ''choices'') = Some (JArr [JStr (js ''a''), JStr (js ''b'')])
   \<and> own_property (compose_scene ?P (js ''data:image/jpeg;base64,AAAA'')) (js ''newItem'') = Some (JStr [])
   \<and> own_property (compose_scene ?P (js ''data:image/jpeg;base64,AAAA'')) (js ''gameOver'') = Some (JBool False)
   \<and> own_property (compose_scene ?P (js ''data:image/jpeg;base64,AAAA'')) (js ''habitatUpdate'') = Some JNull"
    by auto
  moreover have "own_property (compose_scene ?P (js ''data:image/jpeg;base64,AAAA'')) (js ''imageUrl'')
      = Some (JStr (js ''data:image/jpeg;base64,AAAA''))"
    by (simp add: own_property_compose_scene)
  ultimately show ?thesis using run by blast
qed

end
